theory Spec2Isabelle
  imports Main "HOL-Library.Word"
begin

section \<open>Bytes and DataView reads\<close>

text \<open>
  A \<open>DataView\<close> is modelled by the list of its bytes. The source always reads
  little-endian (every call passes \<open>true\<close>), so the flag is not a parameter. A read
  that does not fit into the view raises \<open>RangeError\<close> in JavaScript; here it is the
  value \<open>Inl RangeError\<close>. JavaScript numbers are exact on every value that occurs
  (below \<open>2 ^ 53\<close>), so offsets and decoded values are natural numbers, and the
  transaction counter, which starts at \<open>-1\<close>, is an integer.
\<close>

type_synonym byte = "8 word"

datatype error =
    RangeError
  | TransportError
  | InvalidResponsePacket
  | InvalidDataPacketHeader
  | ExpectedDataPacket nat
  | GetDeviceInfoFailed nat
  | GetDeviceInfoNotOK
  | OpenSessionFailed nat
  | OpenSessionFailedAfterRetry nat
  | NoPtpInterface
  | BulkEndpointsNotFound

definition PTP_HEADER_SIZE :: nat where "PTP_HEADER_SIZE = 12"

definition PTP_OC_GetDeviceInfo :: nat where "PTP_OC_GetDeviceInfo = 0x1001"
definition PTP_OC_OpenSession :: nat where "PTP_OC_OpenSession = 0x1002"
definition PTP_OC_CloseSession :: nat where "PTP_OC_CloseSession = 0x1003"
definition PTP_OC_GetDevicePropValue :: nat where "PTP_OC_GetDevicePropValue = 0x1015"

definition PTP_RC_OK :: nat where "PTP_RC_OK = 0x2001"
definition PTP_RC_SessionAlreadyOpened :: nat where "PTP_RC_SessionAlreadyOpened = 0x201e"

definition PTP_USB_CONTAINER_COMMAND :: nat where "PTP_USB_CONTAINER_COMMAND = 1"
definition PTP_USB_CONTAINER_DATA :: nat where "PTP_USB_CONTAINER_DATA = 2"
definition PTP_USB_CONTAINER_RESPONSE :: nat where "PTP_USB_CONTAINER_RESPONSE = 3"

definition PTP_VENDOR_CANON :: nat where "PTP_VENDOR_CANON = 0xb"
definition PTP_VENDOR_FUJI :: nat where "PTP_VENDOR_FUJI = 0xe"

definition PTP_DPC_CANON_EOS_ShutterCounter :: nat where
  "PTP_DPC_CANON_EOS_ShutterCounter = 0xd1ac"
definition PTP_DPC_CANON_EOS_ShutterReleaseCounter :: nat where
  "PTP_DPC_CANON_EOS_ShutterReleaseCounter = 0xd167"
definition PTP_DPC_FUJI_TotalShotCount :: nat where
  "PTP_DPC_FUJI_TotalShotCount = 0xd310"

definition PTP_OC_CANON_EOS_SetRemoteMode :: nat where
  "PTP_OC_CANON_EOS_SetRemoteMode = 0x9114"
definition PTP_OC_CANON_EOS_SetEventMode :: nat where
  "PTP_OC_CANON_EOS_SetEventMode = 0x9115"
definition PTP_OC_CANON_EOS_GetEvent :: nat where
  "PTP_OC_CANON_EOS_GetEvent = 0x9116"
definition PTP_OC_CANON_EOS_PCHDDCapacity :: nat where
  "PTP_OC_CANON_EOS_PCHDDCapacity = 0x911a"
definition PTP_OC_CANON_EOS_SetRequestOLCInfoGroup :: nat where
  "PTP_OC_CANON_EOS_SetRequestOLCInfoGroup = 0x913d"
definition PTP_OC_CANON_EOS_RequestDevicePropValue :: nat where
  "PTP_OC_CANON_EOS_RequestDevicePropValue = 0x9127"
definition PTP_EC_CANON_EOS_PropValueChanged :: nat where
  "PTP_EC_CANON_EOS_PropValueChanged = 0xc189"

definition CAPTURED_PROP_CHANGES :: "nat set" where
  "CAPTURED_PROP_CHANGES =
     {PTP_DPC_CANON_EOS_ShutterCounter, PTP_DPC_CANON_EOS_ShutterReleaseCounter}"

lemmas ptp_consts =
  PTP_HEADER_SIZE_def PTP_OC_GetDeviceInfo_def PTP_OC_OpenSession_def
  PTP_OC_CloseSession_def PTP_OC_GetDevicePropValue_def PTP_RC_OK_def
  PTP_RC_SessionAlreadyOpened_def PTP_USB_CONTAINER_COMMAND_def
  PTP_USB_CONTAINER_DATA_def PTP_USB_CONTAINER_RESPONSE_def PTP_VENDOR_CANON_def
  PTP_VENDOR_FUJI_def PTP_DPC_CANON_EOS_ShutterCounter_def
  PTP_DPC_CANON_EOS_ShutterReleaseCounter_def PTP_DPC_FUJI_TotalShotCount_def
  PTP_OC_CANON_EOS_SetRemoteMode_def PTP_OC_CANON_EOS_SetEventMode_def
  PTP_OC_CANON_EOS_GetEvent_def PTP_OC_CANON_EOS_PCHDDCapacity_def
  PTP_OC_CANON_EOS_SetRequestOLCInfoGroup_def
  PTP_OC_CANON_EOS_RequestDevicePropValue_def PTP_EC_CANON_EOS_PropValueChanged_def
  CAPTURED_PROP_CHANGES_def

definition getUint8 :: "byte list \<Rightarrow> nat \<Rightarrow> error + nat" where
  "getUint8 view off =
     (if off + 1 > length view then Inl RangeError else Inr (unat (view ! off)))"

definition getUint16 :: "byte list \<Rightarrow> nat \<Rightarrow> error + nat" where
  "getUint16 view off =
     (if off + 2 > length view then Inl RangeError
      else Inr (unat (view ! off) + 256 * unat (view ! (off + 1))))"

definition getUint32 :: "byte list \<Rightarrow> nat \<Rightarrow> error + nat" where
  "getUint32 view off =
     (if off + 4 > length view then Inl RangeError
      else Inr (unat (view ! off) + 256 * unat (view ! (off + 1))
                + 65536 * unat (view ! (off + 2)) + 16777216 * unat (view ! (off + 3))))"

text \<open>Sequencing of fallible pure steps: the first error ends the computation.\<close>

definition bindE :: "error + 'a \<Rightarrow> ('a \<Rightarrow> error + 'b) \<Rightarrow> error + 'b" where
  "bindE m f = (case m of Inl e \<Rightarrow> Inl e | Inr x \<Rightarrow> f x)"

section \<open>PTP strings (\<open>parsePtpString\<close>, camera.ts 245-260)\<close>

text \<open>
  A JavaScript string is a sequence of UTF-16 code units; \<open>String.fromCharCode\<close>
  appends one unit, so the decoded text is the list of the units read.
\<close>

record ptp_string =
  "text" :: "nat list"
  newOffset :: nat

text \<open>
  The \<open>for\<close> loop, with \<open>k\<close> the number of iterations still to run and \<open>i\<close> the
  loop variable.
\<close>

fun parsePtpStringLoop ::
  "byte list \<Rightarrow> nat \<Rightarrow> nat \<Rightarrow> nat \<Rightarrow> nat list \<Rightarrow> error + nat list" where
  "parsePtpStringLoop view offset 0 i str = Inr str"
| "parsePtpStringLoop view offset (Suc k) i str =
     (if offset + 1 + i * 2 + 2 > length view then Inr str
      else bindE (getUint16 view (offset + 1 + i * 2)) (\<lambda>charCode.
             parsePtpStringLoop view offset k (i + 1)
               (if charCode \<noteq> 0 then str @ [charCode] else str)))"

definition parsePtpString :: "byte list \<Rightarrow> nat \<Rightarrow> error + ptp_string" where
  "parsePtpString view offset =
     (if offset \<ge> length view then Inr \<lparr>text = [], newOffset = offset\<rparr>
      else bindE (getUint8 view offset) (\<lambda>numChars.
        if numChars = 0 then Inr \<lparr>text = [], newOffset = offset + 1\<rparr>
        else bindE (parsePtpStringLoop view offset numChars 0 []) (\<lambda>str.
               Inr \<lparr>text = str, newOffset = offset + 1 + numChars * 2\<rparr>)))"

text \<open>The code unit stored little-endian at a position, for stating results.\<close>

definition unitAt :: "byte list \<Rightarrow> nat \<Rightarrow> nat" where
  "unitAt view p = unat (view ! p) + 256 * unat (view ! (p + 1))"

text \<open>How many whole code units lie between the count byte and the end of the view.\<close>

definition unitsThatFit :: "byte list \<Rightarrow> nat \<Rightarrow> nat" where
  "unitsThatFit view offset = (length view - (offset + 1)) div 2"

definition ascii :: "string \<Rightarrow> nat list" where
  "ascii s = map (\<lambda>c. of_char c) s"

section \<open>Device info (\<open>parseDeviceInfo\<close>, camera.ts 262-316)\<close>

record DeviceInfo =
  vendorExtensionId :: nat
  manufacturer :: "nat list"
  model :: "nat list"
  version :: "nat list"
  serial :: "nat list"

text \<open>
  The source repeats three lines for each of the five arrays: read the count at the
  offset, add 4, add \<open>count * 2\<close>. \<open>skipArray\<close> is that step, returning the new offset.
\<close>

definition skipArray :: "byte list \<Rightarrow> nat \<Rightarrow> error + nat" where
  "skipArray view offset =
     bindE (getUint32 view offset) (\<lambda>len. Inr (offset + 4 + len * 2))"

text \<open>
  Lines 263-295: the fixed-width fields, the description string and the five arrays.
  The result is the vendor extension id and the offset of the manufacturer string.
\<close>

definition parseDeviceInfoFixed :: "byte list \<Rightarrow> error + nat \<times> nat" where
  "parseDeviceInfoFixed view =
     bindE (getUint16 view PTP_HEADER_SIZE) (\<lambda>standardVersion.
     bindE (getUint32 view (PTP_HEADER_SIZE + 2)) (\<lambda>vendorExtensionId.
     bindE (getUint16 view (PTP_HEADER_SIZE + 2 + 4)) (\<lambda>vendorExtensionVersion.
     bindE (parsePtpString view (PTP_HEADER_SIZE + 2 + 4 + 2)) (\<lambda>vendorExtensionDesc.
     bindE (getUint16 view (newOffset vendorExtensionDesc)) (\<lambda>functionalMode.
     bindE (skipArray view (newOffset vendorExtensionDesc + 2)) (\<lambda>afterOps.
     bindE (skipArray view afterOps) (\<lambda>afterEvents.
     bindE (skipArray view afterEvents) (\<lambda>afterProps.
     bindE (skipArray view afterProps) (\<lambda>afterCaps.
     bindE (skipArray view afterCaps) (\<lambda>afterImgs.
       Inr (vendorExtensionId, afterImgs)))))))))))"

text \<open>Lines 297-315: the four identity strings, and the result.\<close>

definition parseDeviceInfoStrings :: "byte list \<Rightarrow> nat \<Rightarrow> nat \<Rightarrow> error + DeviceInfo" where
  "parseDeviceInfoStrings view vid offset =
     bindE (parsePtpString view offset) (\<lambda>manufacturerS.
     bindE (parsePtpString view (newOffset manufacturerS)) (\<lambda>modelS.
     bindE (parsePtpString view (newOffset modelS)) (\<lambda>deviceVersion.
     bindE (parsePtpString view (newOffset deviceVersion)) (\<lambda>serialNumber.
       Inr \<lparr>vendorExtensionId = vid, manufacturer = text manufacturerS,
            model = text modelS, version = text deviceVersion,
            serial = text serialNumber\<rparr>))))"

definition parseDeviceInfo :: "byte list \<Rightarrow> error + DeviceInfo" where
  "parseDeviceInfo view =
     bindE (parseDeviceInfoFixed view) (\<lambda>(vid, offset).
       parseDeviceInfoStrings view vid offset)"

text \<open>
  What a PTP string at an offset decodes to, written without the loop: the non-zero
  code units among the first \<open>min count fit\<close> units, and the offset after the
  declared \<open>count\<close> units whether or not they were all there.
\<close>

definition ptpText :: "byte list \<Rightarrow> nat \<Rightarrow> nat list" where
  "ptpText view offset =
     (if offset \<ge> length view then []
      else filter (\<lambda>c. c \<noteq> 0)
             (map (\<lambda>j. unitAt view (offset + 1 + j * 2))
                  [0 ..< min (unat (view ! offset)) (unitsThatFit view offset)]))"

definition ptpNext :: "byte list \<Rightarrow> nat \<Rightarrow> nat" where
  "ptpNext view offset =
     (if offset \<ge> length view then offset else offset + 1 + unat (view ! offset) * 2)"

section \<open>Canon event records (\<open>parseCanonPropChanges\<close>, camera.ts 374-401)\<close>

record PropValueChange =
  propCode :: nat
  "value" :: nat

text \<open>
  The body of \<open>if (type === PTP_EC_CANON_EOS_PropValueChanged)\<close>: the property code
  is read before the size of the record is looked at.
\<close>

definition recordChange ::
  "byte list \<Rightarrow> nat \<Rightarrow> nat \<Rightarrow> nat \<Rightarrow> PropValueChange list \<Rightarrow> error + PropValueChange list"
  where
  "recordChange dataView offset sz type changes =
     (if type = PTP_EC_CANON_EOS_PropValueChanged then
        bindE (getUint32 dataView (offset + 8)) (\<lambda>pc.
          if pc \<in> CAPTURED_PROP_CHANGES then
            (if sz \<ge> 16 then
               bindE (getUint32 dataView (offset + PTP_HEADER_SIZE)) (\<lambda>v.
                 Inr (changes @ [\<lparr>propCode = pc, value = v\<rparr>]))
             else Inr changes)
          else Inr changes)
      else Inr changes)"

text \<open>
  One pass of the \<open>while\<close> loop up to its three \<open>break\<close>s: \<open>Inr None\<close> when the
  loop ends here, \<open>Inr (Some (sz, type))\<close> when the record at the offset is to be looked at.
\<close>

definition recordHeader :: "byte list \<Rightarrow> nat \<Rightarrow> error + (nat \<times> nat) option" where
  "recordHeader dataView offset =
     (if offset + 8 \<le> length dataView then
        bindE (getUint32 dataView offset) (\<lambda>sz.
        bindE (getUint32 dataView (offset + 4)) (\<lambda>type.
          if sz < 8 then Inr None
          else if sz = 8 \<and> type = 0 then Inr None
          else if offset + sz > length dataView then Inr None
          else Inr (Some (sz, type))))
      else Inr None)"

function parseCanonLoop ::
  "byte list \<Rightarrow> nat \<Rightarrow> PropValueChange list \<Rightarrow> error + PropValueChange list" where
  "parseCanonLoop dataView offset changes =
     (case recordHeader dataView offset of
        Inl e \<Rightarrow> Inl e
      | Inr None \<Rightarrow> Inr changes
      | Inr (Some (sz, type)) \<Rightarrow>
          (case recordChange dataView offset sz type changes of
             Inl e \<Rightarrow> Inl e
           | Inr changes' \<Rightarrow> parseCanonLoop dataView (offset + sz) changes'))"
  by pat_completeness auto
termination
proof (relation "measure (\<lambda>(dataView, offset, changes). length dataView - offset)")
  show "wf (measure (\<lambda>(dataView, offset, changes). length dataView - offset))"
    by simp
next
  fix dataView :: "byte list" and offset :: nat and changes :: "PropValueChange list"
    and b x2 x and sz type :: nat and changes' :: "PropValueChange list"
  assume h: "recordHeader dataView offset = Inr b" "b = Some x2" "(sz, type) = x2"
  then have "recordHeader dataView offset = Inr (Some (sz, type))"
    by simp
  then have "8 \<le> sz \<and> offset + sz \<le> length dataView"
    by (auto simp: recordHeader_def bindE_def split: if_splits sum.splits)
  then show "((dataView, offset + sz, changes'), (dataView, offset, changes))
        \<in> measure (\<lambda>(dataView, offset, changes). length dataView - offset)"
    by (simp; arith)
qed

declare parseCanonLoop.simps [simp del]

definition parseCanonPropChanges :: "byte list \<Rightarrow> error + PropValueChange list" where
  "parseCanonPropChanges dataView = parseCanonLoop dataView PTP_HEADER_SIZE []"

section \<open>The USB device and the state of a \<open>PtpDevice\<close>\<close>

text \<open>
  The camera is outside the program, so its behaviour is data of the state: the outcomes
  of the successive \<open>transferIn\<close> calls (\<open>inq\<close>) and of the successive
  \<open>transferOut\<close> calls (\<open>outq\<close>), each consumed by one call. A call on an exhausted
  \<open>inq\<close> throws; a write on an exhausted \<open>outq\<close> succeeds. The program is
  deterministic and each call consumes one outcome, so a device that answers according
  to what it was sent is, on each run, one of these scripts. The requested length of a
  read and the endpoint numbers are not modelled, nor are the waits (\<open>setTimeout\<close>)
  and the console output, which change no value.

  \<open>sent\<close> records every buffer handed to \<open>transferOut\<close>, oldest first, whether or
  not the write then failed.

  The fields \<open>usb...\<close> describe the \<open>USBDevice\<close>: whether \<open>open\<close>,
  \<open>selectConfiguration\<close>, \<open>claimInterface\<close> and \<open>releaseInterface\<close> succeed,
  whether a configuration is selected, the number of its interface of class 6 and of the
  bulk endpoints of that interface if there are any, and the outcomes of the successive
  \<open>device.close()\<close> calls (on an exhausted list the call succeeds). \<open>opened\<close> is
  \<open>device.opened\<close>; \<open>transactionId\<close> and \<open>interfaceNumber\<close> are the fields of the
  \<open>PtpDevice\<close>; \<open>releaseCalls\<close> and \<open>closeCalls\<close> count the calls of
  \<open>releaseInterface\<close> and \<open>device.close()\<close>.
\<close>

datatype xfer =
    XThrow
  | XNull
  | XData "byte list"

record world =
  inq :: "xfer list"
  outq :: "bool list"
  sent :: "byte list list"
  transactionId :: int
  usbOpenOk :: bool
  usbConfigured :: bool
  usbSelectOk :: bool
  usbPtpInterface :: "nat option"
  usbClaimOk :: bool
  usbBulkIn :: "nat option"
  usbBulkOut :: "nat option"
  usbReleaseOk :: bool
  usbCloseq :: "bool list"
  opened :: bool
  interfaceNumber :: "nat option"
  releaseCalls :: nat
  closeCalls :: nat

type_synonym 'a ptp = "world \<Rightarrow> (error + 'a) \<times> world"

definition ret :: "'a \<Rightarrow> 'a ptp" where
  "ret x w = (Inr x, w)"

definition throw :: "error \<Rightarrow> 'a ptp" where
  "throw e w = (Inl e, w)"

definition bnd :: "'a ptp \<Rightarrow> ('a \<Rightarrow> 'b ptp) \<Rightarrow> 'b ptp" where
  "bnd m f w = (case m w of (Inl e, w') \<Rightarrow> (Inl e, w') | (Inr x, w') \<Rightarrow> f x w')"

text \<open>A pure step that may raise, run in a state it leaves alone.\<close>

definition liftE :: "error + 'a \<Rightarrow> 'a ptp" where
  "liftE r w = (r, w)"

text \<open>\<open>try { m } catch (e) { h e }\<close>\<close>

definition tryCatch :: "'a ptp \<Rightarrow> (error \<Rightarrow> 'a ptp) \<Rightarrow> 'a ptp" where
  "tryCatch m h w = (case m w of (Inl e, w') \<Rightarrow> h e w' | (Inr x, w') \<Rightarrow> (Inr x, w'))"

text \<open>
  \<open>try { m } finally { f }\<close>: \<open>f\<close> runs whatever \<open>m\<close> did; an error thrown by
  \<open>f\<close> replaces the outcome of \<open>m\<close>, otherwise the outcome of \<open>m\<close> stands.
\<close>

definition tryFinally :: "'a ptp \<Rightarrow> unit ptp \<Rightarrow> 'a ptp" where
  "tryFinally m f w =
     (case m w of (r, w') \<Rightarrow>
        (case f w' of (Inl e, w'') \<Rightarrow> (Inl e, w'') | (Inr u, w'') \<Rightarrow> (r, w'')))"

definition transferIn :: "(byte list option) ptp" where
  "transferIn w =
     (case inq w of
        [] \<Rightarrow> (Inl TransportError, w)
      | x # q \<Rightarrow>
          (case x of
             XThrow \<Rightarrow> (Inl TransportError, w\<lparr>inq := q\<rparr>)
           | XNull \<Rightarrow> (Inr None, w\<lparr>inq := q\<rparr>)
           | XData d \<Rightarrow> (Inr (Some d), w\<lparr>inq := q\<rparr>)))"

definition transferOut :: "byte list \<Rightarrow> unit ptp" where
  "transferOut buffer w =
     (case outq w of
        [] \<Rightarrow> (Inr (), w\<lparr>sent := sent w @ [buffer]\<rparr>)
      | ok # q \<Rightarrow>
          (if ok then Inr () else Inl TransportError,
           w\<lparr>sent := sent w @ [buffer], outq := q\<rparr>))"

subsection \<open>\<open>connect\<close> and \<open>close\<close> (camera.ts 87-129)\<close>

definition connect :: "unit ptp" where
  "connect w =
     (if \<not> usbOpenOk w then (Inl TransportError, w)
      else let w1 = w\<lparr>opened := True\<rparr> in
        if \<not> usbConfigured w1 \<and> \<not> usbSelectOk w1 then (Inl TransportError, w1)
        else (case usbPtpInterface w1 of
                None \<Rightarrow> (Inl NoPtpInterface, w1)
              | Some n \<Rightarrow>
                  let w2 = w1\<lparr>interfaceNumber := Some n\<rparr> in
                  if \<not> usbClaimOk w2 then (Inl TransportError, w2)
                  else if usbBulkIn w2 = None \<or> usbBulkOut w2 = None
                       then (Inl BulkEndpointsNotFound, w2)
                       else (Inr (), w2)))"

definition releaseInterface :: "unit ptp" where
  "releaseInterface w =
     (if usbReleaseOk w then Inr () else Inl TransportError,
      w\<lparr>releaseCalls := releaseCalls w + 1\<rparr>)"

definition deviceClose :: "unit ptp" where
  "deviceClose w =
     (case usbCloseq w of
        [] \<Rightarrow> (Inr (), w\<lparr>closeCalls := closeCalls w + 1, opened := False\<rparr>)
      | ok # q \<Rightarrow>
          (if ok
           then (Inr (), w\<lparr>closeCalls := closeCalls w + 1, usbCloseq := q, opened := False\<rparr>)
           else (Inl TransportError, w\<lparr>closeCalls := closeCalls w + 1, usbCloseq := q\<rparr>)))"

definition close :: "unit ptp" where
  "close =
     bnd (tryCatch
            (\<lambda>w. if opened w \<and> interfaceNumber w \<noteq> None then releaseInterface w
                 else ret () w)
            (\<lambda>e. ret ()))
       (\<lambda>_. bnd (\<lambda>w. ret () (w\<lparr>interfaceNumber := None\<rparr>))
       (\<lambda>_. deviceClose))"

subsection \<open>Packets (camera.ts 131-225)\<close>

definition le16 :: "nat \<Rightarrow> byte list" where
  "le16 n = [of_nat n, of_nat (n div 256)]"

definition le32 :: "nat \<Rightarrow> byte list" where
  "le32 n = [of_nat n, of_nat (n div 256), of_nat (n div 65536), of_nat (n div 16777216)]"

text \<open>
  \<open>setUint32\<close> stores its argument modulo \<open>2 ^ 32\<close>, which is what four bytes hold.
\<close>

definition encodePacket :: "nat \<Rightarrow> nat \<Rightarrow> nat list \<Rightarrow> world \<Rightarrow> byte list" where
  "encodePacket type code params w =
     le32 (PTP_HEADER_SIZE + length params * 4) @ le16 type @ le16 code
     @ le32 (nat (transactionId w mod 2 ^ 32)) @ concat (map le32 params)"

definition receiveResponse :: "(byte list) ptp" where
  "receiveResponse =
     bnd transferIn (\<lambda>resData.
       case resData of
         None \<Rightarrow> throw InvalidResponsePacket
       | Some d \<Rightarrow>
           if length d < PTP_HEADER_SIZE then throw InvalidResponsePacket else ret d)"

text \<open>
  The first loop of \<open>receiveData\<close>: \<open>n\<close> attempts left, \<open>headerView\<close> as the last
  attempt left it (\<open>None\<close> for \<open>undefined\<close> or a missing \<open>data\<close>).
\<close>

fun receiveHeader :: "nat \<Rightarrow> byte list option \<Rightarrow> (byte list option) ptp" where
  "receiveHeader 0 headerView w = ret headerView w"
| "receiveHeader (Suc n) headerView w =
     bnd transferIn (\<lambda>hv.
       case hv of
         None \<Rightarrow> receiveHeader n None
       | Some d \<Rightarrow> if length d > 0 then ret (Some d) else receiveHeader n (Some d)) w"

text \<open>
  The second loop of \<open>receiveData\<close>, over the outcomes still in the script: \<open>filled\<close>
  is the part of \<open>fullBuffer\<close> written so far (its length is the source's
  \<open>offset\<close>), and the rest of the buffer is zero. \<open>TypedArray.set\<close> raises
  \<open>RangeError\<close> when the chunk does not fit.
\<close>

fun readChunks ::
  "nat \<Rightarrow> byte list \<Rightarrow> xfer list \<Rightarrow> (error + byte list) \<times> xfer list" where
  "readChunks len filled [] =
     (if length filled < len then (Inl TransportError, [])
      else (Inr filled, []))"
| "readChunks len filled (x # q) =
     (if length filled < len then
        (case x of
           XThrow \<Rightarrow> (Inl TransportError, q)
         | XNull \<Rightarrow> (Inr (filled @ replicate (len - length filled) 0), q)
         | XData d \<Rightarrow>
             if length d = 0 then (Inr (filled @ replicate (len - length filled) 0), q)
             else if length filled + length d > len then (Inl RangeError, q)
             else readChunks len (filled @ d) q)
      else (Inr filled, x # q))"

definition receiveChunks :: "nat \<Rightarrow> byte list \<Rightarrow> (byte list) ptp" where
  "receiveChunks len headerView w =
     (case readChunks len headerView (inq w) of (r, q) \<Rightarrow> (r, w\<lparr>inq := q\<rparr>))"

definition receiveData :: "(byte list) ptp" where
  "receiveData =
     bnd (receiveHeader 3 None) (\<lambda>hv.
       case hv of
         None \<Rightarrow> throw InvalidDataPacketHeader
       | Some headerView \<Rightarrow>
           if length headerView < PTP_HEADER_SIZE then throw InvalidDataPacketHeader
           else
             bnd (liftE (getUint32 headerView 0)) (\<lambda>len.
             bnd (liftE (getUint16 headerView 4)) (\<lambda>type.
               if type \<noteq> PTP_USB_CONTAINER_DATA then
                 (if type = PTP_USB_CONTAINER_RESPONSE then ret headerView
                  else throw (ExpectedDataPacket type))
               else if length headerView \<ge> len then ret headerView
               else receiveChunks len headerView)))"

definition sendCommand :: "nat \<Rightarrow> nat list \<Rightarrow> unit ptp" where
  "sendCommand code params w =
     (let w1 = w\<lparr>transactionId := transactionId w + 1\<rparr>
      in transferOut (encodePacket PTP_USB_CONTAINER_COMMAND code params w1) w1)"

subsection \<open>Session and standard operations (camera.ts 227-243, 318-372)\<close>

definition getDeviceInfo :: "DeviceInfo ptp" where
  "getDeviceInfo =
     bnd (sendCommand PTP_OC_GetDeviceInfo []) (\<lambda>_.
     bnd receiveData (\<lambda>dataPacket.
     bnd (liftE (getUint16 dataPacket 4)) (\<lambda>type.
       if type = PTP_USB_CONTAINER_RESPONSE then
         bnd (liftE (getUint16 dataPacket 6)) (\<lambda>respCode. throw (GetDeviceInfoFailed respCode))
       else
         bnd receiveResponse (\<lambda>responsePacket.
         bnd (liftE (getUint16 responsePacket 6)) (\<lambda>rc.
           if rc \<noteq> PTP_RC_OK then throw GetDeviceInfoNotOK
           else liftE (parseDeviceInfo dataPacket))))))"

definition closeSession :: "unit ptp" where
  "closeSession =
     bnd (sendCommand PTP_OC_CloseSession []) (\<lambda>_.
     bnd receiveResponse (\<lambda>_. ret ()))"

text \<open>The assignment \<open>this.transactionId = t\<close>.\<close>

definition setTransactionId :: "int \<Rightarrow> unit ptp" where
  "setTransactionId t w = (Inr (), w\<lparr>transactionId := t\<rparr>)"

definition openSession :: "unit ptp" where
  "openSession =
     bnd (setTransactionId (- 1)) (\<lambda>_.
     bnd (sendCommand PTP_OC_OpenSession [1]) (\<lambda>_.
     bnd receiveResponse (\<lambda>response.
     bnd (liftE (getUint16 response 6)) (\<lambda>respCode.
       if respCode \<noteq> PTP_RC_OK then
         (if respCode = PTP_RC_SessionAlreadyOpened then
            bnd closeSession (\<lambda>_.
            bnd (setTransactionId (- 1)) (\<lambda>_.
            bnd (sendCommand PTP_OC_OpenSession [1]) (\<lambda>_.
            bnd receiveResponse (\<lambda>retryResp.
            bnd (liftE (getUint16 retryResp 6)) (\<lambda>retryCode.
              if retryCode \<noteq> PTP_RC_OK then throw (OpenSessionFailedAfterRetry retryCode)
              else ret ())))))
          else throw (OpenSessionFailed respCode))
       else ret ()))))"

definition getDevicePropValue :: "nat \<Rightarrow> (nat option) ptp" where
  "getDevicePropValue pc =
     bnd (sendCommand PTP_OC_GetDevicePropValue [pc]) (\<lambda>_.
     bnd receiveData (\<lambda>dataPacket.
     bnd (liftE (getUint16 dataPacket 4)) (\<lambda>type.
       if type = PTP_USB_CONTAINER_RESPONSE then ret None
       else
         bnd receiveResponse (\<lambda>responsePacket.
         bnd (liftE (getUint16 responsePacket 6)) (\<lambda>rc.
           if rc \<noteq> PTP_RC_OK then ret None
           else if length dataPacket \<ge> 16 then
             bnd (liftE (getUint32 dataPacket PTP_HEADER_SIZE)) (\<lambda>v. ret (Some v))
           else ret None)))))"

subsection \<open>Canon (camera.ts 403-530)\<close>

definition getCanonPropChanges :: "(PropValueChange list) ptp" where
  "getCanonPropChanges =
     tryCatch
       (bnd (sendCommand PTP_OC_CANON_EOS_GetEvent []) (\<lambda>_.
        bnd receiveData (\<lambda>data.
        bnd (liftE (getUint16 data 4)) (\<lambda>type.
          if type = PTP_USB_CONTAINER_RESPONSE then ret []
          else
            bnd receiveResponse (\<lambda>_.
              if length data \<le> PTP_HEADER_SIZE then ret []
              else liftE (parseCanonPropChanges data))))))
       (\<lambda>e. ret [])"

definition initCanon :: "unit ptp" where
  "initCanon =
     tryCatch
       (bnd (sendCommand PTP_OC_CANON_EOS_SetRemoteMode [1]) (\<lambda>_.
        bnd receiveResponse (\<lambda>_.
        bnd (sendCommand PTP_OC_CANON_EOS_SetEventMode [1]) (\<lambda>_.
        bnd receiveResponse (\<lambda>_.
        bnd (sendCommand PTP_OC_CANON_EOS_SetRequestOLCInfoGroup [0x1fff]) (\<lambda>_.
        bnd receiveResponse (\<lambda>_.
        bnd (sendCommand PTP_OC_CANON_EOS_PCHDDCapacity [0x0fffffff, 0x1000, 0x1]) (\<lambda>_.
        bnd receiveResponse (\<lambda>_. ret ())))))))))
       (\<lambda>e. throw e)"

text \<open>The predicate \<open>drainShutterEvents\<close> passes to \<open>find\<close>.\<close>

definition isShutterEvt :: "PropValueChange \<Rightarrow> bool" where
  "isShutterEvt e =
     (propCode e = PTP_DPC_CANON_EOS_ShutterCounter
      \<or> propCode e = PTP_DPC_CANON_EOS_ShutterReleaseCounter)"

text \<open>The \<open>for\<close> loop of \<open>drainShutterEvents\<close>, with the number of passes left.\<close>

fun drainLoop :: "nat \<Rightarrow> (nat option) ptp" where
  "drainLoop 0 w = ret None w"
| "drainLoop (Suc n) w =
     bnd getCanonPropChanges (\<lambda>evts.
       case find isShutterEvt evts of
         Some shutterEvt \<Rightarrow> ret (Some (value shutterEvt))
       | None \<Rightarrow> if length evts = 0 then ret None else drainLoop n) w"

definition drainShutterEvents :: "(nat option) ptp" where
  "drainShutterEvents = tryCatch (drainLoop 5) (\<lambda>e. ret None)"

text \<open>The \<open>for\<close> loop of \<open>queryAndPollShutterProp\<close>.\<close>

fun pollLoop :: "nat \<Rightarrow> nat \<Rightarrow> (nat option) ptp" where
  "pollLoop 0 pc w = ret None w"
| "pollLoop (Suc n) pc w =
     bnd getCanonPropChanges (\<lambda>evts.
       case find (\<lambda>e. propCode e = pc) evts of
         Some evt \<Rightarrow> ret (Some (value evt))
       | None \<Rightarrow> pollLoop n pc) w"

definition queryAndPollShutterProp :: "nat \<Rightarrow> (nat option) ptp" where
  "queryAndPollShutterProp pc =
     tryCatch
       (bnd (sendCommand PTP_OC_CANON_EOS_RequestDevicePropValue [pc]) (\<lambda>_.
        bnd receiveResponse (\<lambda>_. pollLoop 5 pc)))
       (\<lambda>e. ret None)"

definition getCanonShutterCount :: "int ptp" where
  "getCanonShutterCount =
     bnd drainShutterEvents (\<lambda>count.
       case count of Some c \<Rightarrow> ret (int c) | None \<Rightarrow>
     bnd (queryAndPollShutterProp PTP_DPC_CANON_EOS_ShutterCounter) (\<lambda>count.
       case count of Some c \<Rightarrow> ret (int c) | None \<Rightarrow>
     bnd (getDevicePropValue PTP_DPC_CANON_EOS_ShutterCounter) (\<lambda>count.
       case count of Some c \<Rightarrow> ret (int c) | None \<Rightarrow>
     bnd (queryAndPollShutterProp PTP_DPC_CANON_EOS_ShutterReleaseCounter) (\<lambda>count.
       case count of Some c \<Rightarrow> ret (int c) | None \<Rightarrow>
     bnd (getDevicePropValue PTP_DPC_CANON_EOS_ShutterReleaseCounter) (\<lambda>count.
       case count of Some c \<Rightarrow> ret (int c) | None \<Rightarrow>
     ret (- 1))))))"

definition exitCanon :: "unit ptp" where
  "exitCanon =
     bnd (tryCatch
            (bnd (sendCommand PTP_OC_CANON_EOS_SetRemoteMode [1]) (\<lambda>_.
             bnd receiveResponse (\<lambda>_. ret ())))
            (\<lambda>e. ret ()))
       (\<lambda>_. tryCatch
            (bnd (sendCommand PTP_OC_CANON_EOS_SetEventMode [0]) (\<lambda>_.
             bnd receiveResponse (\<lambda>_. ret ())))
            (\<lambda>e. ret ()))"

subsection \<open>\<open>getCameraInfo\<close> (camera.ts 532-587)\<close>

record CameraInfo =
  ciManufacturer :: "nat list"
  ciModel :: "nat list"
  ciVersion :: "nat list"
  ciSerial :: "nat list"
  shutterCount :: int

text \<open>\<open>String.prototype.includes\<close>: the argument occurs as a contiguous part.\<close>

fun includesStr :: "'a list \<Rightarrow> 'a list \<Rightarrow> bool" where
  "includesStr [] sub = (sub = [])"
| "includesStr (x # xs) sub = (take (length sub) (x # xs) = sub \<or> includesStr xs sub)"

text \<open>
  \<open>String.prototype.toLowerCase\<close> is the runtime's Unicode mapping, which the
  repository does not contain: it is the parameter \<open>lower\<close> of what follows.

  Lines 551-557: the vendor id the dispatch is made on.
\<close>

definition vendorIdOf :: "(nat list \<Rightarrow> nat list) \<Rightarrow> DeviceInfo \<Rightarrow> nat" where
  "vendorIdOf lower deviceInfo =
     (if includesStr (lower (manufacturer deviceInfo)) (ascii ''canon'') then PTP_VENDOR_CANON
      else if includesStr (lower (manufacturer deviceInfo)) (ascii ''fuji'') then PTP_VENDOR_FUJI
      else vendorExtensionId deviceInfo)"

text \<open>Lines 550-570: the value of \<open>shutterCount\<close> after the dispatch.\<close>

definition vendorShutterCount :: "(nat list \<Rightarrow> nat list) \<Rightarrow> DeviceInfo \<Rightarrow> int ptp" where
  "vendorShutterCount lower deviceInfo =
     (if vendorIdOf lower deviceInfo = PTP_VENDOR_CANON then
        tryFinally (bnd initCanon (\<lambda>_. getCanonShutterCount)) exitCanon
      else if vendorIdOf lower deviceInfo = PTP_VENDOR_FUJI then
        bnd (getDevicePropValue PTP_DPC_FUJI_TotalShotCount) (\<lambda>val.
          case val of Some v \<Rightarrow> ret (int v) | None \<Rightarrow> ret (- 1))
      else ret (- 1))"

text \<open>
  From \<open>new PtpDevice(device)\<close> on; the check for WebUSB and the device chooser come
  before the \<open>try\<close> and are not part of the model.
\<close>

definition getCameraInfo :: "(nat list \<Rightarrow> nat list) \<Rightarrow> CameraInfo ptp" where
  "getCameraInfo lower =
     tryFinally
       (bnd connect (\<lambda>_.
        bnd openSession (\<lambda>_.
        bnd getDeviceInfo (\<lambda>deviceInfo.
        bnd (vendorShutterCount lower deviceInfo) (\<lambda>count.
        bnd closeSession (\<lambda>_.
        bnd close (\<lambda>_.
          ret \<lparr>ciManufacturer = manufacturer deviceInfo, ciModel = model deviceInfo,
               ciVersion = version deviceInfo, ciSerial = serial deviceInfo,
               shutterCount = count\<rparr>)))))))
       close"

text \<open>Reading a sent packet back: its operation code and its transaction id.\<close>

definition codeOf :: "byte list \<Rightarrow> nat" where
  "codeOf pkt = unat (pkt ! 6) + 256 * unat (pkt ! 7)"


text \<open>An initial state: nothing sent, the device as described by the arguments.\<close>

definition world0 :: "xfer list \<Rightarrow> bool list \<Rightarrow> world" where
  "world0 ins outs =
     \<lparr>inq = ins, outq = outs, sent = [], transactionId = 0, usbOpenOk = True,
      usbConfigured = True, usbSelectOk = True, usbPtpInterface = Some 0,
      usbClaimOk = True, usbBulkIn = Some 1, usbBulkOut = Some 2, usbReleaseOk = True,
      usbCloseq = [], opened = False, interfaceNumber = None, releaseCalls = 0,
      closeCalls = 0\<rparr>"

text \<open>
  A GetDeviceInfo data container with empty description and arrays, whose serial number
  string announces three code units and holds one and a half.
\<close>

definition samplePayload :: "byte list" where
  "samplePayload =
     [58, 0, 0, 0, 2, 0, 1, 16, 1, 0, 0, 0]
     @ [100, 0] @ [11, 0, 0, 0] @ [100, 0] @ [0] @ [0, 0]
     @ [0, 0, 0, 0] @ [0, 0, 0, 0] @ [0, 0, 0, 0] @ [0, 0, 0, 0] @ [0, 0, 0, 0]
     @ [2, 67, 0, 0, 0] @ [2, 77, 0, 0, 0] @ [2, 86, 0, 0, 0] @ [3, 83, 0, 49]"



section \<open>The cascade as the specification words it\<close>

text \<open>
  The stages run in the order of the list, each only when every stage before it yielded
  no value; the first value is the result; when no stage yields a value the result is
  \<open>-1\<close>. An error a stage raises ends the cascade with that error.
\<close>

fun cascade :: "(nat option) ptp list \<Rightarrow> int ptp" where
  "cascade [] w = (Inr (- 1), w)"
| "cascade (stage # stages) w =
     (case stage w of
        (Inl e, w') \<Rightarrow> (Inl e, w')
      | (Inr (Some v), w') \<Rightarrow> (Inr (int v), w')
      | (Inr None, w') \<Rightarrow> cascade stages w')"

section \<open>Example devices\<close>

text \<open>Containers a camera sends: responses, an empty event list, one shutter event.\<close>

definition responseOK :: "byte list" where
  "responseOK = [12, 0, 0, 0, 3, 0, 0x01, 0x20, 1, 0, 0, 0]"

definition responseBusy :: "byte list" where
  "responseBusy = [12, 0, 0, 0, 3, 0, 0x19, 0x20, 1, 0, 0, 0]"

definition responseAlreadyOpen :: "byte list" where
  "responseAlreadyOpen = [12, 0, 0, 0, 3, 0, 0x1e, 0x20, 1, 0, 0, 0]"

definition noEvents :: "byte list" where
  "noEvents = [12, 0, 0, 0, 2, 0, 0x16, 0x91, 1, 0, 0, 0]"

definition shutterEvent :: "byte list" where
  "shutterEvent =
     [28, 0, 0, 0, 2, 0, 0x16, 0x91, 3, 0, 0, 0]
     @ [16, 0, 0, 0, 0x89, 0xc1, 0, 0, 0xac, 0xd1, 0, 0, 42, 0, 0, 0]"

definition shortRecordEvents :: "byte list" where
  "shortRecordEvents =
     [36, 0, 0, 0, 2, 0, 0x16, 0x91, 5, 0, 0, 0]
     @ [16, 0, 0, 0, 0x89, 0xc1, 0, 0, 0xac, 0xd1, 0, 0, 42, 0, 0, 0]
     @ [8, 0, 0, 0, 0x89, 0xc1, 0, 0]"

text \<open>
  The drain finds nothing pending; the request for \<open>0xD1AC\<close> is answered, and the
  first poll after it brings the change.
\<close>

definition pollingCamera :: world where
  "pollingCamera =
     world0 [XData noEvents, XData responseOK, XData responseOK, XData shutterEvent,
             XData responseOK] []"

text \<open>
  A camera that answers no event command and rejects both property reads with a
  response container.
\<close>

definition silentCamera :: world where
  "silentCamera =
     world0 [XThrow, XThrow, XData responseBusy, XThrow, XData responseBusy] []"

text \<open>A camera whose link fails on every read.\<close>

definition deadCamera :: world where
  "deadCamera = world0 [XThrow, XThrow, XThrow, XThrow, XThrow, XThrow] []"

text \<open>
  A camera that answers no event command, rejects the read of \<open>0xD1AC\<close> with a
  response container, and whose link fails at the read of \<open>0xD167\<close>.
\<close>

definition halfDeadCamera :: world where
  "halfDeadCamera = world0 [XThrow, XThrow, XData responseBusy, XThrow, XThrow] []"

text \<open>
  A camera that rejects OpenSession with \<open>0x2019\<close> and whose \<open>device.close()\<close>
  then fails.
\<close>

definition stuckCamera :: world where
  "stuckCamera = (world0 [XData responseBusy] [])\<lparr>usbCloseq := [False]\<rparr>"

lemmas example_defs =
  responseOK_def responseBusy_def responseAlreadyOpen_def noEvents_def shutterEvent_def
  shortRecordEvents_def pollingCamera_def silentCamera_def deadCamera_def stuckCamera_def
  halfDeadCamera_def

text \<open>
  The ASCII part of \<open>toLowerCase\<close>, for running the dispatch on the examples.
\<close>

definition asciiLowerCase :: "nat list \<Rightarrow> nat list" where
  "asciiLowerCase s = map (\<lambda>c. if 65 \<le> c \<and> c \<le> 90 then c + 32 else c) s"

text \<open>
  GetDeviceInfo data of a camera that names itself \<open>Sony\<close> with vendor extension id
  6, and of one that names itself \<open>FUJIFILM\<close> with the Fuji id.
\<close>

definition sonyInfo :: "byte list" where
  "sonyInfo =
     [77, 0, 0, 0, 2, 0, 1, 16, 1, 0, 0, 0, 100, 0, 6, 0, 0, 0, 100, 0, 0, 0, 0, 0, 0,
      0, 0, 0, 0, 0, 0, 0, 0, 0, 0, 0, 0, 0, 0, 0, 0, 0, 0, 5, 83, 0, 111, 0, 110, 0,
      121, 0, 0, 0, 3, 77, 0, 49, 0, 0, 0, 4, 49, 0, 46, 0, 48, 0, 0, 0, 3, 83, 0, 49,
      0, 0, 0]"

definition fujiInfo :: "byte list" where
  "fujiInfo =
     [85, 0, 0, 0, 2, 0, 1, 16, 1, 0, 0, 0, 100, 0, 14, 0, 0, 0, 100, 0, 0, 0, 0, 0, 0,
      0, 0, 0, 0, 0, 0, 0, 0, 0, 0, 0, 0, 0, 0, 0, 0, 0, 0, 9, 70, 0, 85, 0, 74, 0, 73,
      0, 70, 0, 73, 0, 76, 0, 77, 0, 0, 0, 3, 77, 0, 49, 0, 0, 0, 4, 49, 0, 46, 0, 48,
      0, 0, 0, 3, 83, 0, 49, 0, 0, 0]"

text \<open>
  A camera past session open and device info that answers the Canon strategy: the four
  initialization steps, a drain that finds the shutter event, the two exit steps. And
  the Sony camera answering a whole query.
\<close>

definition canonFujiCamera :: world where
  "canonFujiCamera =
     world0 [XData responseOK, XData responseOK, XData responseOK, XData responseOK,
             XData shutterEvent, XData responseOK,
             XData responseOK, XData responseOK] []"

definition sonyCamera :: world where
  "sonyCamera = world0 [XData responseOK, XData sonyInfo, XData responseOK, XData responseOK] []"

text \<open>A Fuji camera whose link fails at the read of the shot count.\<close>

definition fujiCamera :: world where
  "fujiCamera = world0 [XData responseOK, XData fujiInfo, XData responseOK, XThrow] []"

lemmas info_defs =
  sonyInfo_def fujiInfo_def asciiLowerCase_def canonFujiCamera_def sonyCamera_def
  fujiCamera_def

section \<open>Proofs\<close>

lemma parsePtpStringLoop_eq:
  "parsePtpStringLoop view offset k i str =
     Inr (str @ filter (\<lambda>c. c \<noteq> 0)
            (map (\<lambda>j. unitAt view (offset + 1 + j * 2))
                 [i ..< min (i + k) (unitsThatFit view offset)]))"
proof (induction k arbitrary: i str)
  case 0
  then show ?case by simp
next
  case (Suc k)
  show ?case
  proof (cases "offset + 1 + i * 2 + 2 > length view")
    case True
    then have "unitsThatFit view offset \<le> i"
      unfolding unitsThatFit_def by arith
    then show ?thesis using True by simp
  next
    case False
    then have fit: "i < unitsThatFit view offset"
      unfolding unitsThatFit_def by arith
    have rd: "getUint16 view (offset + 1 + i * 2) = Inr (unitAt view (offset + 1 + i * 2))"
      using False by (simp add: getUint16_def unitAt_def)
    have up: "[i ..< min (i + Suc k) (unitsThatFit view offset)] =
              i # [i + 1 ..< min (i + 1 + k) (unitsThatFit view offset)]"
      using fit by (simp add: upt_conv_Cons)
    let ?c = "unitAt view (offset + 1 + i * 2)"
    let ?str = "if ?c \<noteq> 0 then str @ [?c] else str"
    have "parsePtpStringLoop view offset (Suc k) i str =
          parsePtpStringLoop view offset k (i + 1) ?str"
      using False by (simp only: parsePtpStringLoop.simps rd bindE_def sum.case if_False)
    also have "\<dots> = Inr (?str @ filter (\<lambda>c. c \<noteq> 0)
            (map (\<lambda>j. unitAt view (offset + 1 + j * 2))
                 [i + 1 ..< min (i + 1 + k) (unitsThatFit view offset)]))"
      by (rule Suc.IH)
    also have "\<dots> = Inr (str @ filter (\<lambda>c. c \<noteq> 0)
            (map (\<lambda>j. unitAt view (offset + 1 + j * 2))
                 [i ..< min (i + Suc k) (unitsThatFit view offset)]))"
      by (simp only: up) simp
    finally show ?thesis .
  qed
qed


lemma parsePtpString_eq:
  "parsePtpString view offset =
     Inr \<lparr>text = ptpText view offset, newOffset = ptpNext view offset\<rparr>"
proof (cases "offset \<ge> length view")
  case True
  then show ?thesis by (simp add: parsePtpString_def ptpText_def ptpNext_def)
next
  case False
  then have rd: "getUint8 view offset = Inr (unat (view ! offset))"
    by (simp add: getUint8_def)
  show ?thesis
    using False
    by (simp add: parsePtpString_def ptpText_def ptpNext_def rd bindE_def
        parsePtpStringLoop_eq)
qed

text \<open>
  Claim C7. \<open>parsePtpString\<close> decodes a length-prefixed little-endian UTF-16 string
  and never fails: at an offset inside the view the text is the non-zero code units among
  the first \<open>min count fit\<close> units, where \<open>fit\<close> is the number of whole units the view
  still holds, so a view that ends inside the string gives the units that fit; the new
  offset is \<open>offset + 1 + 2 * count\<close>. A count byte of zero gives the empty string and
  advances by one. The view \<open>[4, 'A',0, 'B',0, 'C',0, 0,0]\<close> gives \<open>ABC\<close> and offset 9;
  cut after the \<open>B\<close> it gives \<open>AB\<close>.
\<close>

theorem parsePtpString_decodes:
  "parsePtpString view offset =
     (if offset \<ge> length view then Inr \<lparr>text = [], newOffset = offset\<rparr>
      else Inr \<lparr>text = filter (\<lambda>c. c \<noteq> 0)
                      (map (\<lambda>j. unitAt view (offset + 1 + j * 2))
                           [0 ..< min (unat (view ! offset)) (unitsThatFit view offset)]),
                newOffset = offset + 1 + unat (view ! offset) * 2\<rparr>)
   \<and> parsePtpString (pre @ 0 # rest) (length pre) =
       Inr \<lparr>text = [], newOffset = length pre + 1\<rparr>
   \<and> parsePtpString [4, 65, 0, 66, 0, 67, 0, 0, 0] 0 =
       Inr \<lparr>text = ascii ''ABC'', newOffset = 9\<rparr>
   \<and> parsePtpString [4, 65, 0, 66, 0, 67] 0 =
       Inr \<lparr>text = ascii ''AB'', newOffset = 9\<rparr>"
proof -
  have a: "parsePtpString view offset =
     (if offset \<ge> length view then Inr \<lparr>text = [], newOffset = offset\<rparr>
      else Inr \<lparr>text = filter (\<lambda>c. c \<noteq> 0)
                      (map (\<lambda>j. unitAt view (offset + 1 + j * 2))
                           [0 ..< min (unat (view ! offset)) (unitsThatFit view offset)]),
                newOffset = offset + 1 + unat (view ! offset) * 2\<rparr>)"
    by (simp add: parsePtpString_eq ptpText_def ptpNext_def)
  have b: "parsePtpString (pre @ 0 # rest) (length pre) =
             Inr \<lparr>text = [], newOffset = length pre + 1\<rparr>"
    by (simp add: parsePtpString_eq ptpText_def ptpNext_def)
  have c: "parsePtpString [4, 65, 0, 66, 0, 67, 0, 0, 0] 0 =
             Inr \<lparr>text = ascii ''ABC'', newOffset = 9\<rparr>"
    by (simp add: parsePtpString_eq ptpText_def ptpNext_def unitsThatFit_def unitAt_def
        ascii_def)
  have d: "parsePtpString [4, 65, 0, 66, 0, 67] 0 =
             Inr \<lparr>text = ascii ''AB'', newOffset = 9\<rparr>"
    by (simp add: parsePtpString_eq ptpText_def ptpNext_def unitsThatFit_def unitAt_def
        ascii_def)
  from a b c d show ?thesis by blast
qed

text \<open>
  Claim C5. A \<open>PropValueChanged\<close> record of size 8 that ends the payload makes
  \<open>parseCanonPropChanges\<close> read the property code at offset 8 of the record, past the
  end of the view: the decoding raises \<open>RangeError\<close> and the watched change of a full
  16-byte record before it is not returned, although the same payload without the short
  record decodes to that change.
\<close>

theorem parseCanonPropChanges_short_record_raises:
  "parseCanonPropChanges
     ([36, 0, 0, 0, 2, 0, 0x16, 0x91, 5, 0, 0, 0]
      @ [16, 0, 0, 0, 0x89, 0xc1, 0, 0, 0xac, 0xd1, 0, 0, 42, 0, 0, 0]
      @ [8, 0, 0, 0, 0x89, 0xc1, 0, 0]) = Inl RangeError
   \<and> parseCanonPropChanges
     ([28, 0, 0, 0, 2, 0, 0x16, 0x91, 5, 0, 0, 0]
      @ [16, 0, 0, 0, 0x89, 0xc1, 0, 0, 0xac, 0xd1, 0, 0, 42, 0, 0, 0]) =
       Inr [\<lparr>propCode = 0xd1ac, value = 42\<rparr>]"
  by (simp add: parseCanonPropChanges_def parseCanonLoop.simps recordHeader_def
      recordChange_def getUint32_def bindE_def ptp_consts)

lemma parseDeviceInfoStrings_eq:
  "parseDeviceInfoStrings view vid off =
     Inr \<lparr>vendorExtensionId = vid,
          manufacturer = ptpText view off,
          model = ptpText view (ptpNext view off),
          version = ptpText view (ptpNext view (ptpNext view off)),
          serial = ptpText view (ptpNext view (ptpNext view (ptpNext view off)))\<rparr>"
  by (simp add: parseDeviceInfoStrings_def parsePtpString_eq bindE_def)

lemma skipArray_error: "skipArray view off = Inl e \<Longrightarrow> e = RangeError"
  by (auto simp: skipArray_def getUint32_def bindE_def split: if_splits)

lemma getUint16_error: "getUint16 view off = Inl e \<Longrightarrow> e = RangeError"
  by (auto simp: getUint16_def split: if_splits)

lemma getUint32_error: "getUint32 view off = Inl e \<Longrightarrow> e = RangeError"
  by (auto simp: getUint32_def split: if_splits)

lemma bindE_Inl:
  "bindE m f = Inl e \<Longrightarrow> (m = Inl e \<or> (\<exists>x. m = Inr x \<and> f x = Inl e))"
  by (cases m) (auto simp: bindE_def)

lemma parseDeviceInfoFixed_error:
  "parseDeviceInfoFixed view = Inl e \<Longrightarrow> e = RangeError"
  unfolding parseDeviceInfoFixed_def
  by (auto dest!: bindE_Inl dest: skipArray_error getUint16_error getUint32_error
      simp: parsePtpString_eq)

lemma ptpText_past_end: "length view \<le> off \<Longrightarrow> ptpText view off = [] \<and> ptpNext view off = off"
  by (simp add: ptpText_def ptpNext_def)

lemma parseDeviceInfoFixed_short:
  "length view < 20 \<Longrightarrow> parseDeviceInfoFixed view = Inl RangeError"
  by (auto simp: parseDeviceInfoFixed_def bindE_def getUint16_def getUint32_def ptp_consts
      split: sum.splits)

text \<open>
  Claim C8 as stated fails: in this payload the operations array announces two codes and
  the payload ends there, so the offset runs past the end and the next count is read out
  of range. The parse raises instead of truncating.
\<close>

theorem parseDeviceInfo_short_payload_raises:
  "parseDeviceInfo
     ([27, 0, 0, 0, 2, 0, 1, 16, 1, 0, 0, 0]
      @ [100, 0] @ [11, 0, 0, 0] @ [100, 0] @ [0] @ [0, 0] @ [2, 0, 0, 0]) = Inl RangeError"
  by (simp add: parseDeviceInfo_def parseDeviceInfoFixed_def bindE_def getUint16_def
      getUint32_def ptp_consts skipArray_def parsePtpString_eq ptpNext_def)

lemma bnd_Inr: "m w = (Inr x, w') \<Longrightarrow> bnd m f w = f x w'"
  by (simp add: bnd_def)

lemma bnd_Inl: "m w = (Inl e, w') \<Longrightarrow> bnd m f w = (Inl e, w')"
  by (simp add: bnd_def)

lemma tryCatch_Inr: "m w = (Inr x, w') \<Longrightarrow> tryCatch m h w = (Inr x, w')"
  by (simp add: tryCatch_def)

lemma tryCatch_Inl: "m w = (Inl e, w') \<Longrightarrow> tryCatch m h w = h e w'"
  by (simp add: tryCatch_def)

lemma tryCatch_ret_total: "\<exists>x w'. tryCatch m (\<lambda>e. ret d) w = (Inr x, w')"
  by (cases "m w"; cases "fst (m w)") (auto simp: tryCatch_def ret_def)

text \<open>Frames: what the receiving operations can change is the input script only.\<close>

lemma transferIn_frame: "\<exists>q. snd (transferIn w) = w\<lparr>inq := q\<rparr>"
  by (auto simp: transferIn_def split: list.splits xfer.splits intro: exI [of _ "inq w"])

lemma receiveResponse_frame: "\<exists>q. snd (receiveResponse w) = w\<lparr>inq := q\<rparr>"
  using transferIn_frame [of w]
  by (cases "transferIn w")
     (auto simp: receiveResponse_def bnd_def throw_def ret_def split: sum.splits option.splits)

lemma receiveHeader_frame: "\<exists>q. snd (receiveHeader n hv w) = w\<lparr>inq := q\<rparr>"
proof (induction n arbitrary: hv w)
  case 0
  show ?case by (auto simp: ret_def intro: exI [of _ "inq w"])
next
  case (Suc n)
  obtain r w1 where t: "transferIn w = (r, w1)" by (cases "transferIn w")
  obtain q1 where q1: "w1 = w\<lparr>inq := q1\<rparr>" using transferIn_frame [of w] t by auto
  show ?case
  proof (cases r)
    case (Inl e)
    then show ?thesis using t q1 by (auto simp: bnd_def)
  next
    case (Inr x)
    show ?thesis
    proof (cases x)
      case None
      obtain q where "snd (receiveHeader n None w1) = w1\<lparr>inq := q\<rparr>"
        using Suc.IH by blast
      then show ?thesis using t q1 Inr None by (auto simp: bnd_def)
    next
      case (Some d)
      obtain q where "snd (receiveHeader n (Some d) w1) = w1\<lparr>inq := q\<rparr>"
        using Suc.IH by blast
      then show ?thesis using t q1 Inr Some by (auto simp: bnd_def ret_def)
    qed
  qed
qed

lemma receiveData_frame: "\<exists>q. snd (receiveData w) = w\<lparr>inq := q\<rparr>"
proof -
  obtain r w1 where h: "receiveHeader 3 None w = (r, w1)" by (cases "receiveHeader 3 None w")
  obtain q1 where q1: "w1 = w\<lparr>inq := q1\<rparr>" using receiveHeader_frame [of 3 None w] h by auto
  show ?thesis
    using h q1
    by (auto simp: receiveData_def bnd_def throw_def ret_def liftE_def receiveChunks_def
        split: sum.splits option.splits prod.splits)
qed

lemma receiveResponse_frameD:
  "receiveResponse w = (r, w') \<Longrightarrow> \<exists>q. w' = w\<lparr>inq := q\<rparr>"
  using receiveResponse_frame [of w] by simp

lemma receiveData_frameD:
  "receiveData w = (r, w') \<Longrightarrow> \<exists>q. w' = w\<lparr>inq := q\<rparr>"
  using receiveData_frame [of w] by simp

lemma sendCommand_sent:
  "sendCommand c ps w = (r, w') \<Longrightarrow>
     sent w' = sent w @ [encodePacket PTP_USB_CONTAINER_COMMAND c ps
                           (w\<lparr>transactionId := transactionId w + 1\<rparr>)]
     \<and> transactionId w' = transactionId w + 1 \<and> inq w' = inq w
     \<and> closeCalls w' = closeCalls w"
  by (auto simp: sendCommand_def transferOut_def Let_def split: list.splits if_splits)

text \<open>One poll sends one command, whatever the device does.\<close>

lemma getCanonPropChanges_sent:
  assumes "getCanonPropChanges w = (r, w')"
  shows "sent w' = sent w @ [encodePacket PTP_USB_CONTAINER_COMMAND PTP_OC_CANON_EOS_GetEvent []
                           (w\<lparr>transactionId := transactionId w + 1\<rparr>)]
         \<and> transactionId w' = transactionId w + 1"
proof -
  obtain r1 w1 where s: "sendCommand PTP_OC_CANON_EOS_GetEvent [] w = (r1, w1)"
    by (cases "sendCommand PTP_OC_CANON_EOS_GetEvent [] w")
  note s1 = sendCommand_sent [OF s]
  obtain r2 w2 where d: "receiveData w1 = (r2, w2)" by (cases "receiveData w1")
  obtain q2 where q2: "w2 = w1\<lparr>inq := q2\<rparr>" using receiveData_frameD [OF d] by blast
  obtain r3 w3 where p: "receiveResponse w2 = (r3, w3)" by (cases "receiveResponse w2")
  obtain q3 where q3: "w3 = w2\<lparr>inq := q3\<rparr>" using receiveResponse_frameD [OF p] by blast
  have "w' = w1 \<or> w' = w2 \<or> w' = w3"
    using assms s d p
    by (auto simp: getCanonPropChanges_def tryCatch_def bnd_def ret_def liftE_def
        split: sum.splits if_splits prod.splits)
  then show ?thesis using s1 q2 q3 by auto
qed

lemma getCanonPropChanges_total: "\<exists>evts w'. getCanonPropChanges w = (Inr evts, w')"
  unfolding getCanonPropChanges_def by (rule tryCatch_ret_total)

text \<open>
  Claim C10. \<open>getCanonPropChanges\<close> returns a list for every behaviour of the device and
  never throws. When sending the command throws, when reading the data throws, when a
  Response container arrives in place of the data, when reading the response throws,
  when the data container is no longer than the 12-byte header, and when decoding the
  records raises, the list is empty.
\<close>

theorem getCanonPropChanges_never_throws:
  "(\<exists>evts w'. getCanonPropChanges w = (Inr evts, w'))
   \<and> (sendCommand PTP_OC_CANON_EOS_GetEvent [] w = (Inl e, w1) \<longrightarrow>
        getCanonPropChanges w = (Inr [], w1))
   \<and> (sendCommand PTP_OC_CANON_EOS_GetEvent [] w = (Inr (), w1) \<longrightarrow>
        receiveData w1 = (Inl e, w2) \<longrightarrow> getCanonPropChanges w = (Inr [], w2))
   \<and> (sendCommand PTP_OC_CANON_EOS_GetEvent [] w = (Inr (), w1) \<longrightarrow>
        receiveData w1 = (Inr data, w2) \<longrightarrow>
        getUint16 data 4 = Inr PTP_USB_CONTAINER_RESPONSE \<longrightarrow>
        getCanonPropChanges w = (Inr [], w2))
   \<and> (sendCommand PTP_OC_CANON_EOS_GetEvent [] w = (Inr (), w1) \<longrightarrow>
        receiveData w1 = (Inr data, w2) \<longrightarrow>
        getUint16 data 4 = Inr PTP_USB_CONTAINER_DATA \<longrightarrow>
        receiveResponse w2 = (Inl e, w3) \<longrightarrow>
        getCanonPropChanges w = (Inr [], w3))
   \<and> (sendCommand PTP_OC_CANON_EOS_GetEvent [] w = (Inr (), w1) \<longrightarrow>
        receiveData w1 = (Inr data, w2) \<longrightarrow>
        getUint16 data 4 = Inr PTP_USB_CONTAINER_DATA \<longrightarrow>
        receiveResponse w2 = (Inr resp, w3) \<longrightarrow>
        length data \<le> PTP_HEADER_SIZE \<longrightarrow>
        getCanonPropChanges w = (Inr [], w3))
   \<and> (sendCommand PTP_OC_CANON_EOS_GetEvent [] w = (Inr (), w1) \<longrightarrow>
        receiveData w1 = (Inr data, w2) \<longrightarrow>
        getUint16 data 4 = Inr PTP_USB_CONTAINER_DATA \<longrightarrow>
        receiveResponse w2 = (Inr resp, w3) \<longrightarrow>
        parseCanonPropChanges data = Inl e \<longrightarrow>
        getCanonPropChanges w = (Inr [], w3))"
proof -
  have a: "\<exists>evts w'. getCanonPropChanges w = (Inr evts, w')"
    by (rule getCanonPropChanges_total)
  have b: "sendCommand PTP_OC_CANON_EOS_GetEvent [] w = (Inl e, w1) \<Longrightarrow>
        getCanonPropChanges w = (Inr [], w1)"
    by (simp add: getCanonPropChanges_def tryCatch_def bnd_def ret_def)
  have c: "sendCommand PTP_OC_CANON_EOS_GetEvent [] w = (Inr (), w1) \<Longrightarrow>
        receiveData w1 = (Inl e, w2) \<Longrightarrow> getCanonPropChanges w = (Inr [], w2)"
    by (simp add: getCanonPropChanges_def tryCatch_def bnd_def ret_def)
  have d: "sendCommand PTP_OC_CANON_EOS_GetEvent [] w = (Inr (), w1) \<Longrightarrow>
        receiveData w1 = (Inr data, w2) \<Longrightarrow>
        getUint16 data 4 = Inr PTP_USB_CONTAINER_RESPONSE \<Longrightarrow>
        getCanonPropChanges w = (Inr [], w2)"
    by (simp add: getCanonPropChanges_def tryCatch_def bnd_def ret_def liftE_def)
  have e: "sendCommand PTP_OC_CANON_EOS_GetEvent [] w = (Inr (), w1) \<Longrightarrow>
        receiveData w1 = (Inr data, w2) \<Longrightarrow>
        getUint16 data 4 = Inr PTP_USB_CONTAINER_DATA \<Longrightarrow>
        receiveResponse w2 = (Inl e, w3) \<Longrightarrow>
        getCanonPropChanges w = (Inr [], w3)"
    by (simp add: getCanonPropChanges_def tryCatch_def bnd_def ret_def liftE_def
        PTP_USB_CONTAINER_DATA_def PTP_USB_CONTAINER_RESPONSE_def)
  have f: "sendCommand PTP_OC_CANON_EOS_GetEvent [] w = (Inr (), w1) \<Longrightarrow>
        receiveData w1 = (Inr data, w2) \<Longrightarrow>
        getUint16 data 4 = Inr PTP_USB_CONTAINER_DATA \<Longrightarrow>
        receiveResponse w2 = (Inr resp, w3) \<Longrightarrow>
        length data \<le> PTP_HEADER_SIZE \<Longrightarrow>
        getCanonPropChanges w = (Inr [], w3)"
    by (simp add: getCanonPropChanges_def tryCatch_def bnd_def ret_def liftE_def
        PTP_USB_CONTAINER_DATA_def PTP_USB_CONTAINER_RESPONSE_def)
  have g: "sendCommand PTP_OC_CANON_EOS_GetEvent [] w = (Inr (), w1) \<Longrightarrow>
        receiveData w1 = (Inr data, w2) \<Longrightarrow>
        getUint16 data 4 = Inr PTP_USB_CONTAINER_DATA \<Longrightarrow>
        receiveResponse w2 = (Inr resp, w3) \<Longrightarrow>
        parseCanonPropChanges data = Inl e \<Longrightarrow>
        getCanonPropChanges w = (Inr [], w3)"
    by (simp add: getCanonPropChanges_def tryCatch_def bnd_def ret_def liftE_def
        PTP_USB_CONTAINER_DATA_def PTP_USB_CONTAINER_RESPONSE_def)
  from a b c d e f g show ?thesis by blast
qed

lemma receiveHeader_numeral:
  "receiveHeader (numeral k) hv w =
     bnd transferIn (\<lambda>hv.
       case hv of
         None \<Rightarrow> receiveHeader (pred_numeral k) None
       | Some d \<Rightarrow> if length d > 0 then ret (Some d) else receiveHeader (pred_numeral k) (Some d)) w"
  by (simp only: numeral_eq_Suc receiveHeader.simps)

lemma drainLoop_numeral:
  "drainLoop (numeral k) w =
     bnd getCanonPropChanges (\<lambda>evts.
       case find isShutterEvt evts of
         Some shutterEvt \<Rightarrow> ret (Some (value shutterEvt))
       | None \<Rightarrow> if length evts = 0 then ret None else drainLoop (pred_numeral k)) w"
  by (simp add: numeral_eq_Suc)

lemma pollLoop_numeral:
  "pollLoop (numeral k) pc w =
     bnd getCanonPropChanges (\<lambda>evts.
       case find (\<lambda>e. propCode e = pc) evts of
         Some evt \<Rightarrow> ret (Some (value evt))
       | None \<Rightarrow> pollLoop (pred_numeral k) pc) w"
  by (simp add: numeral_eq_Suc)

text \<open>The definitions a run on a concrete state unfolds.\<close>

lemmas run_defs =
  bnd_def ret_def throw_def liftE_def tryCatch_def tryFinally_def transferIn_def
  transferOut_def sendCommand_def receiveResponse_def receiveData_def receiveChunks_def
  world0_def Let_def receiveHeader_numeral drainLoop_numeral pollLoop_numeral
  getUint16_def getUint32_def getCanonPropChanges_def drainShutterEvents_def
  queryAndPollShutterProp_def getDevicePropValue_def getCanonShutterCount_def
  closeSession_def openSession_def setTransactionId_def

lemma pairI: "fst p = a \<Longrightarrow> p = (a, snd p)"
  by (cases p) simp

lemma drainLoop_sent:
  "drainLoop n w = (r, w') \<Longrightarrow> length (sent w') \<le> length (sent w) + n"
proof (induction n arbitrary: w r w')
  case 0
  then show ?case by (simp add: ret_def)
next
  case (Suc n)
  obtain evts w1 where g: "getCanonPropChanges w = (Inr evts, w1)"
    using getCanonPropChanges_total [of w] by blast
  have l1: "length (sent w1) = length (sent w) + 1"
    using getCanonPropChanges_sent [OF g] by simp
  show ?case
  proof (cases "find isShutterEvt evts")
    case (Some a)
    then have "w' = w1" using Suc.prems g by (simp add: bnd_def ret_def)
    then show ?thesis using l1 by simp
  next
    case None
    show ?thesis
    proof (cases "length evts = 0")
      case True
      then have "w' = w1" using Suc.prems g None by (simp add: bnd_def ret_def)
      then show ?thesis using l1 by simp
    next
      case False
      then have "drainLoop n w1 = (r, w')" using Suc.prems g None by (simp add: bnd_def)
      from Suc.IH [OF this] show ?thesis using l1 by simp
    qed
  qed
qed

lemma drainShutterEvents_sent:
  "length (sent (snd (drainShutterEvents w))) \<le> length (sent w) + 5"
proof -
  obtain r w1 where d: "drainLoop 5 w = (r, w1)" by (cases "drainLoop 5 w")
  have "snd (drainShutterEvents w) = w1"
    using d by (cases r) (simp_all add: drainShutterEvents_def tryCatch_def ret_def)
  then show ?thesis using drainLoop_sent [OF d] by simp
qed

lemma drainLoop_stops:
  "fst (getCanonPropChanges w) = Inr [] \<Longrightarrow>
     drainLoop (Suc n) w = (Inr None, snd (getCanonPropChanges w))"
  by (cases "getCanonPropChanges w") (simp add: bnd_def ret_def)

lemma drainShutterEvents_stops:
  "fst (getCanonPropChanges w) = Inr [] \<Longrightarrow>
     drainShutterEvents w = (Inr None, snd (getCanonPropChanges w))"
  using drainLoop_stops [of w 4]
  by (simp add: drainShutterEvents_def tryCatch_def eval_nat_numeral)

lemma getCanonShutterCount_eq_cascade:
  "getCanonShutterCount w =
     cascade [drainShutterEvents,
              queryAndPollShutterProp PTP_DPC_CANON_EOS_ShutterCounter,
              getDevicePropValue PTP_DPC_CANON_EOS_ShutterCounter,
              queryAndPollShutterProp PTP_DPC_CANON_EOS_ShutterReleaseCounter,
              getDevicePropValue PTP_DPC_CANON_EOS_ShutterReleaseCounter] w"
  by (simp add: getCanonShutterCount_def bnd_def ret_def
      split: prod.splits sum.splits option.splits)

lemmas parse_defs =
  parseCanonPropChanges_def parseCanonLoop.simps recordHeader_def recordChange_def
  bindE_def isShutterEvt_def

theorem getCanonPropChanges_never_throws_witness:
  "fst (receiveData (snd (sendCommand PTP_OC_CANON_EOS_GetEvent [] deadCamera)))
     = Inl TransportError
   \<and> fst (getCanonPropChanges deadCamera) = Inr []
   \<and> fst (receiveData (snd (sendCommand PTP_OC_CANON_EOS_GetEvent []
              (world0 [XData responseBusy] [])))) = Inr responseBusy
   \<and> getUint16 responseBusy 4 = Inr PTP_USB_CONTAINER_RESPONSE
   \<and> fst (getCanonPropChanges (world0 [XData responseBusy] [])) = Inr []
   \<and> length noEvents \<le> PTP_HEADER_SIZE
   \<and> fst (getCanonPropChanges pollingCamera) = Inr []
   \<and> parseCanonPropChanges shortRecordEvents = Inl RangeError
   \<and> fst (getCanonPropChanges (world0 [XData shortRecordEvents, XData responseOK] []))
       = Inr []"
proof -
  let ?c = "PTP_OC_CANON_EOS_GetEvent"
  have s1: "sendCommand ?c [] deadCamera = (Inr (), snd (sendCommand ?c [] deadCamera))"
    by (rule pairI) (simp add: run_defs example_defs)
  have d1: "fst (receiveData (snd (sendCommand ?c [] deadCamera))) = Inl TransportError"
    by (simp add: run_defs example_defs)
  have r1: "fst (getCanonPropChanges deadCamera) = Inr []"
    using getCanonPropChanges_never_throws
      [where w = deadCamera and ?w1.0 = "snd (sendCommand ?c [] deadCamera)"
         and e = TransportError
         and ?w2.0 = "snd (receiveData (snd (sendCommand ?c [] deadCamera)))"]
      s1 pairI [OF d1]
    by simp
  let ?B = "world0 [XData responseBusy] []"
  have s2: "sendCommand ?c [] ?B = (Inr (), snd (sendCommand ?c [] ?B))"
    by (rule pairI) (simp add: run_defs example_defs)
  have d2: "fst (receiveData (snd (sendCommand ?c [] ?B))) = Inr responseBusy"
    by (simp add: run_defs example_defs ptp_consts)
  have t2: "getUint16 responseBusy 4 = Inr PTP_USB_CONTAINER_RESPONSE"
    by (simp add: getUint16_def example_defs ptp_consts)
  have r2: "fst (getCanonPropChanges ?B) = Inr []"
    using getCanonPropChanges_never_throws
      [where w = ?B and ?w1.0 = "snd (sendCommand ?c [] ?B)" and data = responseBusy
         and ?w2.0 = "snd (receiveData (snd (sendCommand ?c [] ?B)))"]
      s2 pairI [OF d2] t2
    by simp
  let ?w1 = "snd (sendCommand ?c [] pollingCamera)"
  let ?w2 = "snd (receiveData ?w1)"
  have s3: "sendCommand ?c [] pollingCamera = (Inr (), ?w1)"
    by (rule pairI) (simp add: run_defs example_defs)
  have d3: "fst (receiveData ?w1) = Inr noEvents"
    by (simp add: run_defs example_defs ptp_consts)
  have t3: "getUint16 noEvents 4 = Inr PTP_USB_CONTAINER_DATA"
    by (simp add: getUint16_def example_defs ptp_consts)
  have p3: "fst (receiveResponse ?w2) = Inr responseOK"
    by (simp add: run_defs example_defs ptp_consts)
  have l3: "length noEvents \<le> PTP_HEADER_SIZE"
    by (simp add: example_defs ptp_consts)
  have r3: "fst (getCanonPropChanges pollingCamera) = Inr []"
    using getCanonPropChanges_never_throws
      [where w = pollingCamera and ?w1.0 = ?w1 and data = noEvents and ?w2.0 = ?w2
         and resp = responseOK and ?w3.0 = "snd (receiveResponse ?w2)"]
      s3 pairI [OF d3] t3 pairI [OF p3] l3
    by simp
  let ?S = "world0 [XData shortRecordEvents, XData responseOK] []"
  let ?v1 = "snd (sendCommand ?c [] ?S)"
  let ?v2 = "snd (receiveData ?v1)"
  have s4: "sendCommand ?c [] ?S = (Inr (), ?v1)"
    by (rule pairI) (simp add: run_defs example_defs)
  have d4: "fst (receiveData ?v1) = Inr shortRecordEvents"
    by (simp add: run_defs example_defs ptp_consts)
  have t4: "getUint16 shortRecordEvents 4 = Inr PTP_USB_CONTAINER_DATA"
    by (simp add: getUint16_def example_defs ptp_consts)
  have p4: "fst (receiveResponse ?v2) = Inr responseOK"
    by (simp add: run_defs example_defs ptp_consts)
  have e4: "parseCanonPropChanges shortRecordEvents = Inl RangeError"
    by (simp add: example_defs parse_defs getUint32_def ptp_consts)
  have r4: "fst (getCanonPropChanges ?S) = Inr []"
    using getCanonPropChanges_never_throws
      [where w = ?S and ?w1.0 = ?v1 and data = shortRecordEvents and ?w2.0 = ?v2
         and resp = responseOK and ?w3.0 = "snd (receiveResponse ?v2)" and e = RangeError]
      s4 pairI [OF d4] t4 pairI [OF p4] e4
    by simp
  from d1 r1 d2 t2 r2 l3 r3 e4 r4 show ?thesis by blast
qed

text \<open>
  Claim C1. The Canon cascade is the five stages in the order drain, request and poll
  of \<open>0xD1AC\<close>, direct read of \<open>0xD1AC\<close>, request and poll of \<open>0xD167\<close>, direct read
  of \<open>0xD167\<close>: a stage runs only when every stage before it yielded no value, and
  the first value is the result. The drain sends at most five polls and ends with no
  value at the first poll that returns no events. When every stage yields no value the
  result is \<open>-1\<close> and not an error.
\<close>

theorem getCanonShutterCount_cascade:
  "getCanonShutterCount w =
     cascade [drainShutterEvents,
              queryAndPollShutterProp PTP_DPC_CANON_EOS_ShutterCounter,
              getDevicePropValue PTP_DPC_CANON_EOS_ShutterCounter,
              queryAndPollShutterProp PTP_DPC_CANON_EOS_ShutterReleaseCounter,
              getDevicePropValue PTP_DPC_CANON_EOS_ShutterReleaseCounter] w
   \<and> length (sent (snd (drainShutterEvents w))) \<le> length (sent w) + 5
   \<and> (fst (getCanonPropChanges w) = Inr [] \<longrightarrow>
        drainLoop (Suc n) w = (Inr None, snd (getCanonPropChanges w)))
   \<and> (fst (getCanonPropChanges w) = Inr [] \<longrightarrow>
        drainShutterEvents w = (Inr None, snd (getCanonPropChanges w)))
   \<and> (drainShutterEvents w = (Inr None, w1) \<longrightarrow>
        queryAndPollShutterProp PTP_DPC_CANON_EOS_ShutterCounter w1 = (Inr None, w2) \<longrightarrow>
        getDevicePropValue PTP_DPC_CANON_EOS_ShutterCounter w2 = (Inr None, w3) \<longrightarrow>
        queryAndPollShutterProp PTP_DPC_CANON_EOS_ShutterReleaseCounter w3 = (Inr None, w4) \<longrightarrow>
        getDevicePropValue PTP_DPC_CANON_EOS_ShutterReleaseCounter w4 = (Inr None, w5) \<longrightarrow>
        getCanonShutterCount w = (Inr (- 1), w5))"
proof -
  have e: "drainShutterEvents w = (Inr None, w1) \<Longrightarrow>
        queryAndPollShutterProp PTP_DPC_CANON_EOS_ShutterCounter w1 = (Inr None, w2) \<Longrightarrow>
        getDevicePropValue PTP_DPC_CANON_EOS_ShutterCounter w2 = (Inr None, w3) \<Longrightarrow>
        queryAndPollShutterProp PTP_DPC_CANON_EOS_ShutterReleaseCounter w3 = (Inr None, w4) \<Longrightarrow>
        getDevicePropValue PTP_DPC_CANON_EOS_ShutterReleaseCounter w4 = (Inr None, w5) \<Longrightarrow>
        getCanonShutterCount w = (Inr (- 1), w5)"
    by (simp add: getCanonShutterCount_eq_cascade)
  from getCanonShutterCount_eq_cascade [of w] drainShutterEvents_sent [of w]
    drainLoop_stops [of w n] drainShutterEvents_stops [of w] e
  show ?thesis by blast
qed

theorem getCanonShutterCount_cascade_witness:
  "fst (getCanonPropChanges pollingCamera) = Inr []
   \<and> drainShutterEvents pollingCamera = (Inr None, snd (getCanonPropChanges pollingCamera))
   \<and> fst (getCanonShutterCount pollingCamera) = Inr 42
   \<and> map codeOf (sent (snd (getCanonShutterCount pollingCamera))) = [0x9116, 0x9127, 0x9116]
   \<and> fst (getCanonShutterCount silentCamera) = Inr (- 1)
   \<and> map codeOf (sent (snd (getCanonShutterCount silentCamera)))
       = [0x9116, 0x9127, 0x1015, 0x9127, 0x1015]"
proof -
  have e1: "fst (getCanonPropChanges pollingCamera) = Inr []"
    by (simp add: run_defs example_defs ptp_consts)
  have e2: "drainShutterEvents pollingCamera
              = (Inr None, snd (getCanonPropChanges pollingCamera))"
    using getCanonShutterCount_cascade [of pollingCamera] e1 by blast
  have e3: "fst (getCanonShutterCount pollingCamera) = Inr 42"
    by (simp add: run_defs example_defs ptp_consts parse_defs)
  have e4: "map codeOf (sent (snd (getCanonShutterCount pollingCamera)))
              = [0x9116, 0x9127, 0x9116]"
    by (simp add: run_defs example_defs ptp_consts parse_defs codeOf_def encodePacket_def
        le16_def le32_def)
  let ?sc = "PTP_DPC_CANON_EOS_ShutterCounter"
  let ?src = "PTP_DPC_CANON_EOS_ShutterReleaseCounter"
  let ?w1 = "snd (drainShutterEvents silentCamera)"
  let ?w2 = "snd (queryAndPollShutterProp ?sc ?w1)"
  let ?w3 = "snd (getDevicePropValue ?sc ?w2)"
  let ?w4 = "snd (queryAndPollShutterProp ?src ?w3)"
  let ?w5 = "snd (getDevicePropValue ?src ?w4)"
  have s1: "fst (drainShutterEvents silentCamera) = Inr None"
    by (simp add: run_defs example_defs ptp_consts)
  have s2: "fst (queryAndPollShutterProp ?sc ?w1) = Inr None"
    by (simp add: run_defs example_defs ptp_consts)
  have s3: "fst (getDevicePropValue ?sc ?w2) = Inr None"
    by (simp add: run_defs example_defs ptp_consts)
  have s4: "fst (queryAndPollShutterProp ?src ?w3) = Inr None"
    by (simp add: run_defs example_defs ptp_consts)
  have s5: "fst (getDevicePropValue ?src ?w4) = Inr None"
    by (simp add: run_defs example_defs ptp_consts)
  have "getCanonShutterCount silentCamera = (Inr (- 1), ?w5)"
    using getCanonShutterCount_cascade
      [where w = silentCamera and ?w1.0 = ?w1 and ?w2.0 = ?w2 and ?w3.0 = ?w3
         and ?w4.0 = ?w4 and ?w5.0 = ?w5]
      pairI [OF s1] pairI [OF s2] pairI [OF s3] pairI [OF s4] pairI [OF s5]
    by blast
  then have e5: "fst (getCanonShutterCount silentCamera) = Inr (- 1)" by simp
  have e6: "map codeOf (sent (snd (getCanonShutterCount silentCamera)))
              = [0x9116, 0x9127, 0x1015, 0x9127, 0x1015]"
    by (simp add: run_defs example_defs ptp_consts parse_defs codeOf_def encodePacket_def
        le16_def le32_def)
  from e1 e2 e3 e4 e5 e6 show ?thesis by blast
qed

lemma tryCatch_unit_total: "\<exists>w'. tryCatch m (\<lambda>e. ret ()) w = (Inr (), w')"
  by (cases "m w"; cases "fst (m w)") (auto simp: tryCatch_def ret_def)

lemma exitCanon_total: "\<exists>w'. exitCanon w = (Inr (), w')"
proof -
  obtain w1 where a: "tryCatch
            (bnd (sendCommand PTP_OC_CANON_EOS_SetRemoteMode [1]) (\<lambda>_.
             bnd receiveResponse (\<lambda>_. ret ())))
            (\<lambda>e. ret ()) w = (Inr (), w1)"
    using tryCatch_unit_total by blast
  obtain w2 where "tryCatch
            (bnd (sendCommand PTP_OC_CANON_EOS_SetEventMode [0]) (\<lambda>_.
             bnd receiveResponse (\<lambda>_. ret ())))
            (\<lambda>e. ret ()) w1 = (Inr (), w2)"
    using tryCatch_unit_total by blast
  then show ?thesis using a by (simp add: exitCanon_def bnd_def)
qed



lemmas vendor_defs =
  vendorShutterCount_def vendorIdOf_def initCanon_def exitCanon_def getCameraInfo_def
  getDeviceInfo_def connect_def close_def releaseInterface_def deviceClose_def
  ascii_def

lemmas info_parse_defs =
  parseDeviceInfo_def parseDeviceInfoFixed_def parseDeviceInfoStrings_eq skipArray_def
  parsePtpString_eq ptpText_def ptpNext_def unitsThatFit_def unitAt_def bindE_def


lemma le16_value: "n < 65536 \<Longrightarrow> unat (le16 n ! 0) + 256 * unat (le16 n ! 1) = n"
  by (simp add: le16_def unat_of_nat)

lemma split32:
  "(n::nat) mod 4294967296 =
     n mod 256 + 256 * (n div 256 mod 256) + 65536 * (n div 65536 mod 256)
     + 16777216 * (n div 16777216 mod 256)"
proof -
  have a: "n mod (256 * 16777216) = 256 * (n div 256 mod 16777216) + n mod 256"
    by (rule mod_mult2_eq)
  have b: "(n div 256) mod (256 * 65536) = 256 * (n div 256 div 256 mod 65536) + n div 256 mod 256"
    by (rule mod_mult2_eq)
  have c: "(n div 256 div 256) mod (256 * 256) = 256 * (n div 256 div 256 div 256 mod 256) + n div 256 div 256 mod 256"
    by (rule mod_mult2_eq)
  have d1: "n div 256 div 256 = n div 65536" by (simp add: div_mult2_eq [symmetric])
  have d2: "n div 256 div 256 div 256 = n div 16777216" by (simp add: div_mult2_eq [symmetric])
  have d3: "n div 65536 div 256 = n div 16777216" by (simp add: div_mult2_eq [symmetric])
  from a b c show ?thesis by (simp add: d1 d2 d3)
qed

lemma le32_value:
  "unat (le32 n ! 0) + 256 * unat (le32 n ! 1) + 65536 * unat (le32 n ! 2)
     + 16777216 * unat (le32 n ! 3) = n mod 4294967296"
  by (simp add: le32_def unat_of_nat split32)

lemma codeOf_encodePacket: "c < 65536 \<Longrightarrow> codeOf (encodePacket t c ps w) = c"
  using le16_value [of c]
  by (simp add: codeOf_def encodePacket_def nth_append le32_def le16_def)
















lemma close_outcome:
  "fst (close w) =
     (case usbCloseq w of [] \<Rightarrow> Inr () | ok # q \<Rightarrow> if ok then Inr () else Inl TransportError)"
  by (simp add: close_def bnd_def tryCatch_def ret_def releaseInterface_def deviceClose_def
      split: list.splits)

lemma close_counts: "closeCalls (snd (close w)) = closeCalls w + 1"
  by (simp add: close_def bnd_def tryCatch_def ret_def releaseInterface_def deviceClose_def
      split: list.splits)

lemma tryFinally_snd: "snd (tryFinally m f w) = snd (f (snd (m w)))"
  by (cases "m w"; cases "f (snd (m w))"; cases "fst (f (snd (m w)))")
     (auto simp: tryFinally_def)

lemma tryFinally_fst:
  "fst (f (snd (m w))) = Inr () \<Longrightarrow> fst (tryFinally m f w) = fst (m w)"
  by (cases "m w"; cases "f (snd (m w))") (auto simp: tryFinally_def)

lemma closeSession_raises:
  "(sendCommand PTP_OC_CloseSession [] w = (Inl e, w1) \<longrightarrow> closeSession w = (Inl e, w1))
   \<and> (sendCommand PTP_OC_CloseSession [] w = (Inr (), w1) \<longrightarrow>
        receiveResponse w1 = (Inl e, w2) \<longrightarrow> closeSession w = (Inl e, w2))"
  by (simp add: closeSession_def bnd_def)

text \<open>
  Claim C6 as stated fails. \<open>closeSession\<close> raises when the read of its response
  throws. And on a camera that rejects OpenSession and whose \<open>device.close()\<close> fails,
  the query ends with the error of \<open>device.close()\<close>; the error of \<open>openSession\<close>,
  raised first, is lost.
\<close>

theorem cleanup_raises_and_masks:
  "fst (closeSession deadCamera) = Inl TransportError
   \<and> fst (openSession (snd (connect stuckCamera))) = Inl (OpenSessionFailed 0x2019)
   \<and> fst (getCameraInfo asciiLowerCase stuckCamera) = Inl TransportError"
proof -
  have a: "fst (closeSession deadCamera) = Inl TransportError"
    by (simp add: run_defs example_defs)
  have b: "fst (openSession (snd (connect stuckCamera))) = Inl (OpenSessionFailed 0x2019)"
    by (simp add: run_defs example_defs connect_def ptp_consts)
  have c: "fst (getCameraInfo asciiLowerCase stuckCamera) = Inl TransportError"
    by (simp add: run_defs example_defs vendor_defs ptp_consts)
  from a b c show ?thesis by blast
qed




lemma getUint16_suffix: "length p = off \<Longrightarrow> getUint16 (p @ r) off = getUint16 r 0"
  by (auto simp: getUint16_def nth_append)

lemma getUint32_suffix: "length p = off \<Longrightarrow> getUint32 (p @ r) off = getUint32 r 0"
  by (auto simp: getUint32_def nth_append numeral_2_eq_2 numeral_3_eq_3)

lemma getUint16_head: "length x = 2 \<Longrightarrow> getUint16 (x @ r) 0 = Inr (unitAt x 0)"
  by (auto simp: getUint16_def unitAt_def nth_append)

lemma getUint32_le32: "n < 2 ^ 32 \<Longrightarrow> getUint32 (le32 n @ r) 0 = Inr n"
  using le32_value [of n] by (simp add: getUint32_def nth_append le32_def)

lemma skipArray_suffix:
  "length p = off \<Longrightarrow> n < 2 ^ 32 \<Longrightarrow>
     skipArray (p @ le32 n @ r) off = Inr (off + 4 + n * 2)"
  by (simp add: skipArray_def getUint32_suffix getUint32_le32 bindE_def)

lemma unitsThatFit_suffix:
  "unitsThatFit (p @ r) (length p + k) = unitsThatFit r k"
  by (simp add: unitsThatFit_def)

lemma ptpNext_suffix: "ptpNext (p @ r) (length p + k) = length p + ptpNext r k"
  by (simp add: ptpNext_def nth_append)

lemma ptpText_suffix: "ptpText (p @ r) (length p + k) = ptpText r k"
proof -
  have u: "unitAt (p @ r) (length p + k + 1 + j * 2) = unitAt r (k + 1 + j * 2)" for j
    by (simp add: unitAt_def nth_append)
  show ?thesis
    using u by (simp add: ptpText_def nth_append unitsThatFit_suffix add.assoc)
qed

lemma length_le32: "length (le32 n) = 4"
  by (simp add: le32_def)

text \<open>
  The fixed part of a well-formed device info, piece by piece: the offset after it is the
  sum of the lengths of the pieces, each array taking four bytes and twice its count.
\<close>

lemma parseDeviceInfoFixed_layout:
  assumes "length hdr = 12"
    "length sv = 2"
    "vendorId < 2 ^ 32"
    "length vv = 2"
    "length desc = 2 * unat dn"
    "length fm = 2"
    "n1 < 2 ^ 32"
    "length a1 = 2 * n1"
    "n2 < 2 ^ 32"
    "length a2 = 2 * n2"
    "n3 < 2 ^ 32"
    "length a3 = 2 * n3"
    "n4 < 2 ^ 32"
    "length a4 = 2 * n4"
    "n5 < 2 ^ 32"
    "length a5 = 2 * n5"
  shows "parseDeviceInfoFixed
           (hdr @ sv @ le32 vendorId @ vv @ (dn # desc) @ fm @ le32 n1 @ a1 @ le32 n2 @ a2 @ le32 n3 @ a3 @ le32 n4 @ a4 @ le32 n5 @ a5 @ tail)
         = Inr (vendorId, 12 + 2 + 4 + 2 + (1 + 2 * unat dn) + 2 + 4 + 2 * n1 + 4 + 2 * n2 + 4 + 2 * n3 + 4 + 2 * n4 + 4 + 2 * n5)"
proof -
  let ?view = "hdr @ sv @ le32 vendorId @ vv @ (dn # desc) @ fm @ le32 n1 @ a1 @ le32 n2 @ a2 @ le32 n3 @ a3 @ le32 n4 @ a4 @ le32 n5 @ a5 @ tail"
  note len = assms length_le32
  have v1: "?view = (hdr) @ (sv @ le32 vendorId @ vv @ (dn # desc) @ fm @ le32 n1 @ a1 @ le32 n2 @ a2 @ le32 n3 @ a3 @ le32 n4 @ a4 @ le32 n5 @ a5 @ tail)" by simp
  have l1: "length (hdr) = 12" using len by simp
  have r1: "getUint16 ?view PTP_HEADER_SIZE = Inr (unitAt sv 0)"
    using getUint16_suffix [OF l1] getUint16_head [of sv] assms(2)
    by (simp add: PTP_HEADER_SIZE_def)
  have v2: "?view = (hdr @ sv) @ (le32 vendorId @ vv @ (dn # desc) @ fm @ le32 n1 @ a1 @ le32 n2 @ a2 @ le32 n3 @ a3 @ le32 n4 @ a4 @ le32 n5 @ a5 @ tail)" by simp
  have l2: "length (hdr @ sv) = 12 + 2" using len by simp
  have r2: "getUint32 ?view (PTP_HEADER_SIZE + 2) = Inr vendorId"
    unfolding v2 using getUint32_suffix [OF l2, of "le32 vendorId @ vv @ (dn # desc) @ fm @ le32 n1 @ a1 @ le32 n2 @ a2 @ le32 n3 @ a3 @ le32 n4 @ a4 @ le32 n5 @ a5 @ tail"] getUint32_le32 [OF assms(3)]
    by (simp add: PTP_HEADER_SIZE_def)
  have v3: "?view = (hdr @ sv @ le32 vendorId) @ (vv @ (dn # desc) @ fm @ le32 n1 @ a1 @ le32 n2 @ a2 @ le32 n3 @ a3 @ le32 n4 @ a4 @ le32 n5 @ a5 @ tail)" by simp
  have l3: "length (hdr @ sv @ le32 vendorId) = 12 + 2 + 4" using len by simp
  have r3: "getUint16 ?view (PTP_HEADER_SIZE + 2 + 4) = Inr (unitAt vv 0)"
    unfolding v3 using getUint16_suffix [OF l3, of "vv @ (dn # desc) @ fm @ le32 n1 @ a1 @ le32 n2 @ a2 @ le32 n3 @ a3 @ le32 n4 @ a4 @ le32 n5 @ a5 @ tail"] getUint16_head [of vv] assms(4)
    by (simp add: PTP_HEADER_SIZE_def)
  have v4: "?view = (hdr @ sv @ le32 vendorId @ vv) @ ((dn # desc) @ fm @ le32 n1 @ a1 @ le32 n2 @ a2 @ le32 n3 @ a3 @ le32 n4 @ a4 @ le32 n5 @ a5 @ tail)" by simp
  have l4: "length (hdr @ sv @ le32 vendorId @ vv) = 12 + 2 + 4 + 2" using len by simp
  have "ptpNext ?view (PTP_HEADER_SIZE + 2 + 4 + 2)
          = ptpNext ((hdr @ sv @ le32 vendorId @ vv) @ ((dn # desc) @ fm @ le32 n1 @ a1 @ le32 n2 @ a2 @ le32 n3 @ a3 @ le32 n4 @ a4 @ le32 n5 @ a5 @ tail))
              (length (hdr @ sv @ le32 vendorId @ vv) + 0)"
    using len by (simp add: PTP_HEADER_SIZE_def)
  also have "\<dots> = length (hdr @ sv @ le32 vendorId @ vv)
                   + ptpNext ((dn # desc) @ fm @ le32 n1 @ a1 @ le32 n2 @ a2 @ le32 n3 @ a3 @ le32 n4 @ a4 @ le32 n5 @ a5 @ tail) 0"
    by (rule ptpNext_suffix)
  also have "\<dots> = 21 + 2 * unat dn"
    using len by (simp add: ptpNext_def)
  finally have r4: "ptpNext ?view (PTP_HEADER_SIZE + 2 + 4 + 2) = 21 + 2 * unat dn" .
  have v5: "?view = (hdr @ sv @ le32 vendorId @ vv @ (dn # desc)) @ (fm @ le32 n1 @ a1 @ le32 n2 @ a2 @ le32 n3 @ a3 @ le32 n4 @ a4 @ le32 n5 @ a5 @ tail)" by simp
  have l5: "length (hdr @ sv @ le32 vendorId @ vv @ (dn # desc)) = 12 + 2 + 4 + 2 + (1 + 2 * unat dn)" using len by simp
  have r5: "getUint16 ?view (21 + 2 * unat dn) = Inr (unitAt fm 0)"
    unfolding v5 using getUint16_suffix [OF l5, of "fm @ le32 n1 @ a1 @ le32 n2 @ a2 @ le32 n3 @ a3 @ le32 n4 @ a4 @ le32 n5 @ a5 @ tail"] getUint16_head [of fm] assms(6)
    by simp
  have v6: "?view = (hdr @ sv @ le32 vendorId @ vv @ (dn # desc) @ fm) @ (le32 n1 @ a1 @ le32 n2 @ a2 @ le32 n3 @ a3 @ le32 n4 @ a4 @ le32 n5 @ a5 @ tail)" by simp
  have l6: "length (hdr @ sv @ le32 vendorId @ vv @ (dn # desc) @ fm) = 21 + 2 * unat dn + 2" using len by simp
  have r6: "skipArray ?view (21 + 2 * unat dn + 2) = Inr (21 + 2 * unat dn + 2 + 4 + n1 * 2)"
    unfolding v6 using skipArray_suffix [OF l6 assms(7), of "a1 @ le32 n2 @ a2 @ le32 n3 @ a3 @ le32 n4 @ a4 @ le32 n5 @ a5 @ tail"]
    by simp
  have v7: "?view = (hdr @ sv @ le32 vendorId @ vv @ (dn # desc) @ fm @ le32 n1 @ a1) @ (le32 n2 @ a2 @ le32 n3 @ a3 @ le32 n4 @ a4 @ le32 n5 @ a5 @ tail)" by simp
  have l7: "length (hdr @ sv @ le32 vendorId @ vv @ (dn # desc) @ fm @ le32 n1 @ a1) = 21 + 2 * unat dn + 2 + 4 + n1 * 2" using len by simp
  have r7: "skipArray ?view (21 + 2 * unat dn + 2 + 4 + n1 * 2) = Inr (21 + 2 * unat dn + 2 + 4 + n1 * 2 + 4 + n2 * 2)"
    unfolding v7 using skipArray_suffix [OF l7 assms(9), of "a2 @ le32 n3 @ a3 @ le32 n4 @ a4 @ le32 n5 @ a5 @ tail"]
    by simp
  have v8: "?view = (hdr @ sv @ le32 vendorId @ vv @ (dn # desc) @ fm @ le32 n1 @ a1 @ le32 n2 @ a2) @ (le32 n3 @ a3 @ le32 n4 @ a4 @ le32 n5 @ a5 @ tail)" by simp
  have l8: "length (hdr @ sv @ le32 vendorId @ vv @ (dn # desc) @ fm @ le32 n1 @ a1 @ le32 n2 @ a2) = 21 + 2 * unat dn + 2 + 4 + n1 * 2 + 4 + n2 * 2" using len by simp
  have r8: "skipArray ?view (21 + 2 * unat dn + 2 + 4 + n1 * 2 + 4 + n2 * 2) = Inr (21 + 2 * unat dn + 2 + 4 + n1 * 2 + 4 + n2 * 2 + 4 + n3 * 2)"
    unfolding v8 using skipArray_suffix [OF l8 assms(11), of "a3 @ le32 n4 @ a4 @ le32 n5 @ a5 @ tail"]
    by simp
  have v9: "?view = (hdr @ sv @ le32 vendorId @ vv @ (dn # desc) @ fm @ le32 n1 @ a1 @ le32 n2 @ a2 @ le32 n3 @ a3) @ (le32 n4 @ a4 @ le32 n5 @ a5 @ tail)" by simp
  have l9: "length (hdr @ sv @ le32 vendorId @ vv @ (dn # desc) @ fm @ le32 n1 @ a1 @ le32 n2 @ a2 @ le32 n3 @ a3) = 21 + 2 * unat dn + 2 + 4 + n1 * 2 + 4 + n2 * 2 + 4 + n3 * 2" using len by simp
  have r9: "skipArray ?view (21 + 2 * unat dn + 2 + 4 + n1 * 2 + 4 + n2 * 2 + 4 + n3 * 2) = Inr (21 + 2 * unat dn + 2 + 4 + n1 * 2 + 4 + n2 * 2 + 4 + n3 * 2 + 4 + n4 * 2)"
    unfolding v9 using skipArray_suffix [OF l9 assms(13), of "a4 @ le32 n5 @ a5 @ tail"]
    by simp
  have v10: "?view = (hdr @ sv @ le32 vendorId @ vv @ (dn # desc) @ fm @ le32 n1 @ a1 @ le32 n2 @ a2 @ le32 n3 @ a3 @ le32 n4 @ a4) @ (le32 n5 @ a5 @ tail)" by simp
  have l10: "length (hdr @ sv @ le32 vendorId @ vv @ (dn # desc) @ fm @ le32 n1 @ a1 @ le32 n2 @ a2 @ le32 n3 @ a3 @ le32 n4 @ a4) = 21 + 2 * unat dn + 2 + 4 + n1 * 2 + 4 + n2 * 2 + 4 + n3 * 2 + 4 + n4 * 2" using len by simp
  have r10: "skipArray ?view (21 + 2 * unat dn + 2 + 4 + n1 * 2 + 4 + n2 * 2 + 4 + n3 * 2 + 4 + n4 * 2) = Inr (21 + 2 * unat dn + 2 + 4 + n1 * 2 + 4 + n2 * 2 + 4 + n3 * 2 + 4 + n4 * 2 + 4 + n5 * 2)"
    unfolding v10 using skipArray_suffix [OF l10 assms(15), of "a5 @ tail"]
    by simp
  have "parseDeviceInfoFixed ?view = Inr (vendorId, 21 + 2 * unat dn + 2 + 4 + n1 * 2 + 4 + n2 * 2 + 4 + n3 * 2 + 4 + n4 * 2 + 4 + n5 * 2)"
    unfolding parseDeviceInfoFixed_def
    by (simp only: r1 r2 r3 r4 r5 r6 r7 r8 r9 r10 parsePtpString_eq bindE_def sum.case
        ptp_string.select_convs)
  then show ?thesis by simp
qed

text \<open>
  On a payload whose fixed part is complete, the four strings are decoded from what
  follows it, whatever that is: nothing, or a string cut short.
\<close>

lemma parseDeviceInfo_layout:
  assumes "length hdr = 12"
    "length sv = 2"
    "vendorId < 2 ^ 32"
    "length vv = 2"
    "length desc = 2 * unat dn"
    "length fm = 2"
    "n1 < 2 ^ 32"
    "length a1 = 2 * n1"
    "n2 < 2 ^ 32"
    "length a2 = 2 * n2"
    "n3 < 2 ^ 32"
    "length a3 = 2 * n3"
    "n4 < 2 ^ 32"
    "length a4 = 2 * n4"
    "n5 < 2 ^ 32"
    "length a5 = 2 * n5"
  shows "parseDeviceInfo
           (hdr @ sv @ le32 vendorId @ vv @ (dn # desc) @ fm @ le32 n1 @ a1 @ le32 n2 @ a2 @ le32 n3 @ a3 @ le32 n4 @ a4 @ le32 n5 @ a5 @ tail)
         = Inr \<lparr>vendorExtensionId = vendorId,
                manufacturer = ptpText tail 0,
                model = ptpText tail (ptpNext tail 0),
                version = ptpText tail (ptpNext tail (ptpNext tail 0)),
                serial = ptpText tail (ptpNext tail (ptpNext tail (ptpNext tail 0)))\<rparr>"
proof -
  let ?view = "hdr @ sv @ le32 vendorId @ vv @ (dn # desc) @ fm @ le32 n1 @ a1 @ le32 n2 @ a2 @ le32 n3 @ a3 @ le32 n4 @ a4 @ le32 n5 @ a5 @ tail"
  define P where "P = hdr @ sv @ le32 vendorId @ vv @ (dn # desc) @ fm @ le32 n1 @ a1 @ le32 n2 @ a2 @ le32 n3 @ a3 @ le32 n4 @ a4 @ le32 n5 @ a5"
  have vp: "?view = P @ tail" by (simp add: P_def)
  have lp: "length P = 12 + 2 + 4 + 2 + (1 + 2 * unat dn) + 2 + 4 + 2 * n1 + 4 + 2 * n2 + 4 + 2 * n3 + 4 + 2 * n4 + 4 + 2 * n5"
    using assms by (simp add: P_def length_le32)
  have fx: "parseDeviceInfoFixed ?view = Inr (vendorId, length P)"
    using parseDeviceInfoFixed_layout [OF assms, of tail] lp by simp
  have t0: "ptpText (P @ tail) (length P) = ptpText tail 0"
    using ptpText_suffix [of P tail 0] by simp
  have n0: "ptpNext (P @ tail) (length P) = length P + ptpNext tail 0"
    using ptpNext_suffix [of P tail 0] by simp
  have fx': "parseDeviceInfoFixed (P @ tail) = Inr (vendorId, length P)"
    using fx by (simp only: vp)
  show ?thesis
    unfolding vp parseDeviceInfo_def
    by (simp add: fx' bindE_def parseDeviceInfoStrings_eq t0 n0 ptpText_suffix ptpNext_suffix)
qed

text \<open>
  Claim C8, as amended. \<open>parseDeviceInfo\<close> reads, after the 12-byte header, the standard
  version, the vendor extension id, the vendor extension version, the description string,
  the functional mode and five arrays, each a 32-bit count followed by count times two
  bytes that are skipped, and then the manufacturer, model, version and serial strings.
  On every payload that holds this fixed part in full the parse succeeds, and the four
  strings are decoded from whatever follows: a string the payload ends inside is cut to
  the code units that fit, a string whose offset is past the end is empty. When a
  fixed-width field or an array count is read past the end of the payload the parse
  raises \<open>RangeError\<close>; every payload shorter than 20 bytes does.
\<close>

theorem parseDeviceInfo_truncates_strings:
  "(length hdr = 12 \<longrightarrow>
    length sv = 2 \<longrightarrow>
    vendorId < 2 ^ 32 \<longrightarrow>
    length vv = 2 \<longrightarrow>
    length desc = 2 * unat dn \<longrightarrow>
    length fm = 2 \<longrightarrow>
    n1 < 2 ^ 32 \<longrightarrow>
    length a1 = 2 * n1 \<longrightarrow>
    n2 < 2 ^ 32 \<longrightarrow>
    length a2 = 2 * n2 \<longrightarrow>
    n3 < 2 ^ 32 \<longrightarrow>
    length a3 = 2 * n3 \<longrightarrow>
    n4 < 2 ^ 32 \<longrightarrow>
    length a4 = 2 * n4 \<longrightarrow>
    n5 < 2 ^ 32 \<longrightarrow>
    length a5 = 2 * n5 \<longrightarrow>
      parseDeviceInfo
        (hdr @ sv @ le32 vendorId @ vv @ (dn # desc) @ fm @ le32 n1 @ a1 @ le32 n2 @ a2 @ le32 n3 @ a3 @ le32 n4 @ a4 @ le32 n5 @ a5 @ tail)
      = Inr \<lparr>vendorExtensionId = vendorId,
             manufacturer = ptpText tail 0,
             model = ptpText tail (ptpNext tail 0),
             version = ptpText tail (ptpNext tail (ptpNext tail 0)),
             serial = ptpText tail (ptpNext tail (ptpNext tail (ptpNext tail 0)))\<rparr>)
   \<and> (parseDeviceInfoFixed payload = Inr (vid, off) \<longrightarrow>
      parseDeviceInfo payload =
        Inr \<lparr>vendorExtensionId = vid,
             manufacturer = ptpText payload off,
             model = ptpText payload (ptpNext payload off),
             version = ptpText payload (ptpNext payload (ptpNext payload off)),
             serial = ptpText payload (ptpNext payload (ptpNext payload (ptpNext payload off)))\<rparr>
      \<and> (length payload \<le> off \<longrightarrow>
           parseDeviceInfo payload =
             Inr \<lparr>vendorExtensionId = vid, manufacturer = [], model = [],
                  version = [], serial = []\<rparr>))
   \<and> (parseDeviceInfoFixed payload = Inl e \<longrightarrow>
        e = RangeError \<and> parseDeviceInfo payload = Inl RangeError)
   \<and> (length payload < 20 \<longrightarrow> parseDeviceInfo payload = Inl RangeError)"
proof -
  have lay: "length hdr = 12 \<Longrightarrow>
        length sv = 2 \<Longrightarrow>
        vendorId < 2 ^ 32 \<Longrightarrow>
        length vv = 2 \<Longrightarrow>
        length desc = 2 * unat dn \<Longrightarrow>
        length fm = 2 \<Longrightarrow>
        n1 < 2 ^ 32 \<Longrightarrow>
        length a1 = 2 * n1 \<Longrightarrow>
        n2 < 2 ^ 32 \<Longrightarrow>
        length a2 = 2 * n2 \<Longrightarrow>
        n3 < 2 ^ 32 \<Longrightarrow>
        length a3 = 2 * n3 \<Longrightarrow>
        n4 < 2 ^ 32 \<Longrightarrow>
        length a4 = 2 * n4 \<Longrightarrow>
        n5 < 2 ^ 32 \<Longrightarrow>
        length a5 = 2 * n5 \<Longrightarrow>
      parseDeviceInfo
        (hdr @ sv @ le32 vendorId @ vv @ (dn # desc) @ fm @ le32 n1 @ a1 @ le32 n2 @ a2 @ le32 n3 @ a3 @ le32 n4 @ a4 @ le32 n5 @ a5 @ tail)
      = Inr \<lparr>vendorExtensionId = vendorId,
             manufacturer = ptpText tail 0,
             model = ptpText tail (ptpNext tail 0),
             version = ptpText tail (ptpNext tail (ptpNext tail 0)),
             serial = ptpText tail (ptpNext tail (ptpNext tail (ptpNext tail 0)))\<rparr>"
    by (rule parseDeviceInfo_layout)

  have a: "parseDeviceInfoFixed payload = Inr (vid, off) \<Longrightarrow>
      parseDeviceInfo payload =
        Inr \<lparr>vendorExtensionId = vid,
             manufacturer = ptpText payload off,
             model = ptpText payload (ptpNext payload off),
             version = ptpText payload (ptpNext payload (ptpNext payload off)),
             serial = ptpText payload (ptpNext payload (ptpNext payload (ptpNext payload off)))\<rparr>"
    by (simp add: parseDeviceInfo_def bindE_def parseDeviceInfoStrings_eq)
  have b: "parseDeviceInfoFixed payload = Inr (vid, off) \<Longrightarrow> length payload \<le> off \<Longrightarrow>
           parseDeviceInfo payload =
             Inr \<lparr>vendorExtensionId = vid, manufacturer = [], model = [],
                  version = [], serial = []\<rparr>"
    using a by (simp add: ptpText_past_end)
  have c: "parseDeviceInfoFixed payload = Inl e \<Longrightarrow>
        e = RangeError \<and> parseDeviceInfo payload = Inl RangeError"
    using parseDeviceInfoFixed_error [of payload e]
    by (simp add: parseDeviceInfo_def bindE_def)
  have d: "length payload < 20 \<Longrightarrow> parseDeviceInfo payload = Inl RangeError"
    using parseDeviceInfoFixed_short [of payload]
    by (simp add: parseDeviceInfo_def bindE_def)
  from lay a b c d show ?thesis by blast
qed

theorem parseDeviceInfo_truncates_strings_witness:
  "parseDeviceInfo
     ([58, 0, 0, 0, 2, 0, 1, 16, 1, 0, 0, 0] @ [100, 0] @ le32 11 @ [100, 0] @ (1 # [0, 0])
        @ [0, 0] @ le32 2 @ [1, 16, 2, 16] @ le32 1 @ [2, 64] @ le32 0 @ [] @ le32 0 @ []
        @ le32 0 @ [] @ [2, 67, 0, 0, 0, 2, 77, 0])
     = Inr \<lparr>vendorExtensionId = 11, manufacturer = ascii ''C'', model = ascii ''M'',
            version = [], serial = []\<rparr>
   \<and> parseDeviceInfoFixed samplePayload = Inr (11, 43)
   \<and> parseDeviceInfo samplePayload =
       Inr \<lparr>vendorExtensionId = 11, manufacturer = ascii ''C'', model = ascii ''M'',
            version = ascii ''V'', serial = ascii ''S''\<rparr>
   \<and> parseDeviceInfoFixed (take 43 samplePayload) = Inr (11, 43)
   \<and> length (take 43 samplePayload) \<le> 43
   \<and> parseDeviceInfo (take 43 samplePayload) =
       Inr \<lparr>vendorExtensionId = 11, manufacturer = [], model = [], version = [],
            serial = []\<rparr>
   \<and> parseDeviceInfoFixed (take 27 samplePayload) = Inl RangeError
   \<and> parseDeviceInfo (take 27 samplePayload) = Inl RangeError
   \<and> length (take 19 samplePayload) < 20
   \<and> parseDeviceInfo (take 19 samplePayload) = Inl RangeError"
proof -
  let ?tail = "[2, 67, 0, 0, 0, 2, 77, 0] :: byte list"
  have tl: "ptpText ?tail 0 = ascii ''C'' \<and> ptpNext ?tail 0 = 5
     \<and> ptpText ?tail 5 = ascii ''M'' \<and> ptpNext ?tail 5 = 10
     \<and> ptpText ?tail 10 = [] \<and> ptpNext ?tail 10 = 10"
    by (simp add: ptpText_def ptpNext_def unitsThatFit_def unitAt_def ascii_def)
  have w0: "parseDeviceInfo
     ([58, 0, 0, 0, 2, 0, 1, 16, 1, 0, 0, 0] @ [100, 0] @ le32 11 @ [100, 0] @ (1 # [0, 0])
        @ [0, 0] @ le32 2 @ [1, 16, 2, 16] @ le32 1 @ [2, 64] @ le32 0 @ [] @ le32 0 @ []
        @ le32 0 @ [] @ [2, 67, 0, 0, 0, 2, 77, 0])
     = Inr \<lparr>vendorExtensionId = 11, manufacturer = ascii ''C'', model = ascii ''M'',
            version = [], serial = []\<rparr>"
    using parseDeviceInfo_truncates_strings
      [where hdr = "[58, 0, 0, 0, 2, 0, 1, 16, 1, 0, 0, 0]" and sv = "[100, 0]"
         and vendorId = 11 and vv = "[100, 0]" and desc = "[0, 0]" and dn = 1
         and fm = "[0, 0]" and ?n1.0 = 2 and ?a1.0 = "[1, 16, 2, 16]" and ?n2.0 = 1
         and ?a2.0 = "[2, 64]" and ?n3.0 = 0 and ?a3.0 = "[]" and ?n4.0 = 0
         and ?a4.0 = "[]" and ?n5.0 = 0 and ?a5.0 = "[]" and tail = ?tail, THEN conjunct1]
      tl
    by simp
  have fx: "parseDeviceInfoFixed samplePayload = Inr (11, 43)"
    by (simp add: samplePayload_def parseDeviceInfoFixed_def bindE_def getUint16_def
        getUint32_def ptp_consts skipArray_def parsePtpString_eq ptpNext_def)
  have fx43: "parseDeviceInfoFixed (take 43 samplePayload) = Inr (11, 43)"
    by (simp add: samplePayload_def parseDeviceInfoFixed_def bindE_def getUint16_def
        getUint32_def ptp_consts skipArray_def parsePtpString_eq ptpNext_def)
  have fx27: "parseDeviceInfoFixed (take 27 samplePayload) = Inl RangeError"
    by (simp add: samplePayload_def parseDeviceInfoFixed_def bindE_def getUint16_def
        getUint32_def ptp_consts skipArray_def parsePtpString_eq ptpNext_def)
  have l43: "length (take 43 samplePayload) \<le> 43" by simp
  have l19: "length (take 19 samplePayload) < 20" by simp
  have tx: "ptpText samplePayload 43 = ascii ''C'' \<and> ptpNext samplePayload 43 = 48
     \<and> ptpText samplePayload 48 = ascii ''M'' \<and> ptpNext samplePayload 48 = 53
     \<and> ptpText samplePayload 53 = ascii ''V'' \<and> ptpNext samplePayload 53 = 58
     \<and> ptpText samplePayload 58 = ascii ''S''"
    by (simp add: samplePayload_def ptpText_def ptpNext_def unitsThatFit_def unitAt_def
        ascii_def)
  have w1: "parseDeviceInfo samplePayload =
       Inr \<lparr>vendorExtensionId = 11, manufacturer = ascii ''C'', model = ascii ''M'',
            version = ascii ''V'', serial = ascii ''S''\<rparr>"
    using parseDeviceInfo_truncates_strings
      [where payload = samplePayload and vid = 11 and off = 43, THEN conjunct2, THEN conjunct1] fx tx by simp
  have w2: "parseDeviceInfo (take 43 samplePayload) =
       Inr \<lparr>vendorExtensionId = 11, manufacturer = [], model = [], version = [],
            serial = []\<rparr>"
    using parseDeviceInfo_truncates_strings
      [where payload = "take 43 samplePayload" and vid = 11 and off = 43, THEN conjunct2,
         THEN conjunct1] fx43 l43
    by blast
  have w3: "parseDeviceInfo (take 27 samplePayload) = Inl RangeError"
    using parseDeviceInfo_truncates_strings
      [where payload = "take 27 samplePayload" and e = RangeError, THEN conjunct2,
         THEN conjunct2, THEN conjunct1] fx27
    by blast
  have w4: "parseDeviceInfo (take 19 samplePayload) = Inl RangeError"
    using parseDeviceInfo_truncates_strings
      [where payload = "take 19 samplePayload", THEN conjunct2, THEN conjunct2,
         THEN conjunct2] l19
    by blast
  from w0 fx fx43 fx27 l43 l19 w1 w2 w3 w4 show ?thesis by blast
qed


text \<open>
  The exit paths of \<open>getCameraInfo\<close>, one per step of the \<open>try\<close> block: the step
  that raises ends the block, \<open>close\<close> runs in the state the block ended in, and an
  error of \<open>close\<close> replaces the outcome of the block.
\<close>

lemma query_connect_fails:
  "connect w = (Inl e, w1) \<Longrightarrow>
     getCameraInfo lower w =
       (case close w1 of (Inl e', v) \<Rightarrow> (Inl e', v) | (Inr u, v) \<Rightarrow> (Inl e, v))"
  by (simp add: getCameraInfo_def tryFinally_def bnd_def split: prod.splits sum.splits)

lemma query_openSession_fails:
  "connect w = (Inr (), w1) \<Longrightarrow> openSession w1 = (Inl e, w2) \<Longrightarrow>
     getCameraInfo lower w =
       (case close w2 of (Inl e', v) \<Rightarrow> (Inl e', v) | (Inr u, v) \<Rightarrow> (Inl e, v))"
  by (simp add: getCameraInfo_def tryFinally_def bnd_def split: prod.splits sum.splits)

lemma query_getDeviceInfo_fails:
  "connect w = (Inr (), w1) \<Longrightarrow> openSession w1 = (Inr (), w2) \<Longrightarrow>
   getDeviceInfo w2 = (Inl e, w3) \<Longrightarrow>
     getCameraInfo lower w =
       (case close w3 of (Inl e', v) \<Rightarrow> (Inl e', v) | (Inr u, v) \<Rightarrow> (Inl e, v))"
  by (simp add: getCameraInfo_def tryFinally_def bnd_def split: prod.splits sum.splits)

lemma query_vendor_fails:
  "connect w = (Inr (), w1) \<Longrightarrow> openSession w1 = (Inr (), w2) \<Longrightarrow>
   getDeviceInfo w2 = (Inr deviceInfo, w3) \<Longrightarrow>
   vendorShutterCount lower deviceInfo w3 = (Inl e, w4) \<Longrightarrow>
     getCameraInfo lower w =
       (case close w4 of (Inl e', v) \<Rightarrow> (Inl e', v) | (Inr u, v) \<Rightarrow> (Inl e, v))"
  by (simp add: getCameraInfo_def tryFinally_def bnd_def split: prod.splits sum.splits)

lemma query_closeSession_fails:
  "connect w = (Inr (), w1) \<Longrightarrow> openSession w1 = (Inr (), w2) \<Longrightarrow>
   getDeviceInfo w2 = (Inr deviceInfo, w3) \<Longrightarrow>
   vendorShutterCount lower deviceInfo w3 = (Inr count, w4) \<Longrightarrow>
   closeSession w4 = (Inl e, w5) \<Longrightarrow>
     getCameraInfo lower w =
       (case close w5 of (Inl e', v) \<Rightarrow> (Inl e', v) | (Inr u, v) \<Rightarrow> (Inl e, v))"
  by (simp add: getCameraInfo_def tryFinally_def bnd_def split: prod.splits sum.splits)

lemma query_close_fails:
  "connect w = (Inr (), w1) \<Longrightarrow> openSession w1 = (Inr (), w2) \<Longrightarrow>
   getDeviceInfo w2 = (Inr deviceInfo, w3) \<Longrightarrow>
   vendorShutterCount lower deviceInfo w3 = (Inr count, w4) \<Longrightarrow>
   closeSession w4 = (Inr (), w5) \<Longrightarrow> close w5 = (Inl e, w6) \<Longrightarrow>
     getCameraInfo lower w =
       (case close w6 of (Inl e', v) \<Rightarrow> (Inl e', v) | (Inr u, v) \<Rightarrow> (Inl e, v))"
  by (simp add: getCameraInfo_def tryFinally_def bnd_def split: prod.splits sum.splits)

lemma query_succeeds:
  "connect w = (Inr (), w1) \<Longrightarrow> openSession w1 = (Inr (), w2) \<Longrightarrow>
   getDeviceInfo w2 = (Inr deviceInfo, w3) \<Longrightarrow>
   vendorShutterCount lower deviceInfo w3 = (Inr count, w4) \<Longrightarrow>
   closeSession w4 = (Inr (), w5) \<Longrightarrow> close w5 = (Inr (), w6) \<Longrightarrow>
     getCameraInfo lower w =
       (case close w6 of
          (Inl e', v) \<Rightarrow> (Inl e', v)
        | (Inr u, v) \<Rightarrow>
            (Inr \<lparr>ciManufacturer = manufacturer deviceInfo, ciModel = model deviceInfo,
                  ciVersion = version deviceInfo, ciSerial = serial deviceInfo,
                  shutterCount = count\<rparr>, v))"
  by (simp add: getCameraInfo_def tryFinally_def bnd_def ret_def split: prod.splits sum.splits)

text \<open>The exit sequence sends its two commands, whatever the device does.\<close>

lemma exitCanon_sent:
  "map codeOf (drop (length (sent w)) (sent (snd (exitCanon w))))
     = [PTP_OC_CANON_EOS_SetRemoteMode, PTP_OC_CANON_EOS_SetEventMode]"
proof -
  let ?a = "bnd (sendCommand PTP_OC_CANON_EOS_SetRemoteMode [1]) (\<lambda>_.
             bnd receiveResponse (\<lambda>_. ret ()))"
  let ?b = "bnd (sendCommand PTP_OC_CANON_EOS_SetEventMode [0]) (\<lambda>_.
             bnd receiveResponse (\<lambda>_. ret ()))"
  have step: "\<exists>pkt. sent (snd (tryCatch (bnd (sendCommand c ps) (\<lambda>_.
             bnd receiveResponse (\<lambda>_. ret ()))) (\<lambda>e. ret ()) v)) = sent v @ [pkt]
             \<and> codeOf pkt = c" if "c < 65536" for c ps v
  proof -
    obtain r1 v1 where s: "sendCommand c ps v = (r1, v1)" by (cases "sendCommand c ps v")
    obtain r2 v2 where p: "receiveResponse v1 = (r2, v2)" by (cases "receiveResponse v1")
    obtain q where q: "v2 = v1\<lparr>inq := q\<rparr>" using receiveResponse_frameD [OF p] by blast
    have "snd (tryCatch (bnd (sendCommand c ps) (\<lambda>_.
             bnd receiveResponse (\<lambda>_. ret ()))) (\<lambda>e. ret ()) v) = v1
          \<or> snd (tryCatch (bnd (sendCommand c ps) (\<lambda>_.
             bnd receiveResponse (\<lambda>_. ret ()))) (\<lambda>e. ret ()) v) = v2"
      using s p by (auto simp: tryCatch_def bnd_def ret_def split: sum.splits)
    then show ?thesis
      using sendCommand_sent [OF s] q codeOf_encodePacket [OF that] by auto
  qed
  obtain v1 where a: "tryCatch ?a (\<lambda>e. ret ()) w = (Inr (), v1)"
    using tryCatch_unit_total by blast
  obtain p1 where p1: "sent v1 = sent w @ [p1]" "codeOf p1 = PTP_OC_CANON_EOS_SetRemoteMode"
    using step [of PTP_OC_CANON_EOS_SetRemoteMode "[1]" w] a
    by (auto simp: PTP_OC_CANON_EOS_SetRemoteMode_def)
  obtain p2 where p2: "sent (snd (tryCatch ?b (\<lambda>e. ret ()) v1)) = sent v1 @ [p2]"
      "codeOf p2 = PTP_OC_CANON_EOS_SetEventMode"
    using step [of PTP_OC_CANON_EOS_SetEventMode "[0]" v1]
    by (auto simp: PTP_OC_CANON_EOS_SetEventMode_def)
  have "snd (exitCanon w) = snd (tryCatch ?b (\<lambda>e. ret ()) v1)"
    using a by (simp add: exitCanon_def bnd_def)
  then show ?thesis using p1 p2 by simp
qed


lemma release_keeps_outcome:
  "fst (close v0) = Inr () \<Longrightarrow>
     fst (case close v0 of (Inl e', v) \<Rightarrow> (Inl e', v) | (Inr u, v) \<Rightarrow> (r, v)) = r"
  by (cases "close v0") (auto split: sum.splits)

lemma release_error_replaces:
  "fst (close v0) = Inl e0 \<Longrightarrow>
     fst (case close v0 of (Inl e', v) \<Rightarrow> (Inl e', v) | (Inr u, v) \<Rightarrow> (r, v)) = Inl e0"
  by (cases "close v0") (auto split: sum.splits)


text \<open>
  Claim C6, as amended. The Canon exit sequence never raises and always sends its two
  commands. Transport release (\<open>PtpDevice.close\<close>) calls \<open>device.close()\<close> each
  time, swallows a failure of \<open>releaseInterface\<close>, and its outcome is that of
  \<open>device.close()\<close>. In a query, whichever step ends the \<open>try\<close> block
  (\<open>connect\<close>, \<open>openSession\<close>, \<open>getDeviceInfo\<close>, the vendor strategy,
  \<open>closeSession\<close>, the \<open>close\<close> of the block, or the final \<open>return\<close>), the
  release runs next, in the state that step left, and is the last step of the query: the
  state of the query is the state of that release. When the release succeeds the outcome
  of the block stands, the error of the step that raised or the camera information; when
  its \<open>device.close()\<close> fails, the error of the release replaces that outcome.
  \<open>closeSession\<close> raises an error of its send or of its read to its caller.
\<close>

theorem cleanup_behaviour:
  "(\<exists>w'. exitCanon w = (Inr (), w'))
   \<and> map codeOf (drop (length (sent w)) (sent (snd (exitCanon w))))
       = [PTP_OC_CANON_EOS_SetRemoteMode, PTP_OC_CANON_EOS_SetEventMode]
   \<and> fst (close w) =
       (case usbCloseq w of [] \<Rightarrow> Inr ()
        | ok # q \<Rightarrow> if ok then Inr () else Inl TransportError)
   \<and> closeCalls (snd (close w)) = closeCalls w + 1
   \<and> (connect w = (Inl e, w1) \<longrightarrow>
        getCameraInfo lower w = (case close w1 of (Inl e', v) \<Rightarrow> (Inl e', v) | (Inr u, v) \<Rightarrow> (Inl e, v)))
   \<and> (connect w = (Inr (), w1) \<longrightarrow> openSession w1 = (Inl e, w2) \<longrightarrow>
        getCameraInfo lower w = (case close w2 of (Inl e', v) \<Rightarrow> (Inl e', v) | (Inr u, v) \<Rightarrow> (Inl e, v)))
   \<and> (connect w = (Inr (), w1) \<longrightarrow> openSession w1 = (Inr (), w2) \<longrightarrow>
        getDeviceInfo w2 = (Inl e, w3) \<longrightarrow>
        getCameraInfo lower w = (case close w3 of (Inl e', v) \<Rightarrow> (Inl e', v) | (Inr u, v) \<Rightarrow> (Inl e, v)))
   \<and> (connect w = (Inr (), w1) \<longrightarrow> openSession w1 = (Inr (), w2) \<longrightarrow>
        getDeviceInfo w2 = (Inr deviceInfo, w3) \<longrightarrow>
        vendorShutterCount lower deviceInfo w3 = (Inl e, w4) \<longrightarrow>
        getCameraInfo lower w = (case close w4 of (Inl e', v) \<Rightarrow> (Inl e', v) | (Inr u, v) \<Rightarrow> (Inl e, v)))
   \<and> (connect w = (Inr (), w1) \<longrightarrow> openSession w1 = (Inr (), w2) \<longrightarrow>
        getDeviceInfo w2 = (Inr deviceInfo, w3) \<longrightarrow>
        vendorShutterCount lower deviceInfo w3 = (Inr count, w4) \<longrightarrow>
        closeSession w4 = (Inl e, w5) \<longrightarrow>
        getCameraInfo lower w = (case close w5 of (Inl e', v) \<Rightarrow> (Inl e', v) | (Inr u, v) \<Rightarrow> (Inl e, v)))
   \<and> (connect w = (Inr (), w1) \<longrightarrow> openSession w1 = (Inr (), w2) \<longrightarrow>
        getDeviceInfo w2 = (Inr deviceInfo, w3) \<longrightarrow>
        vendorShutterCount lower deviceInfo w3 = (Inr count, w4) \<longrightarrow>
        closeSession w4 = (Inr (), w5) \<longrightarrow> close w5 = (Inl e, w6) \<longrightarrow>
        getCameraInfo lower w = (case close w6 of (Inl e', v) \<Rightarrow> (Inl e', v) | (Inr u, v) \<Rightarrow> (Inl e, v)))
   \<and> (connect w = (Inr (), w1) \<longrightarrow> openSession w1 = (Inr (), w2) \<longrightarrow>
        getDeviceInfo w2 = (Inr deviceInfo, w3) \<longrightarrow>
        vendorShutterCount lower deviceInfo w3 = (Inr count, w4) \<longrightarrow>
        closeSession w4 = (Inr (), w5) \<longrightarrow> close w5 = (Inr (), w6) \<longrightarrow>
        getCameraInfo lower w =
          (case close w6 of
             (Inl e', v) \<Rightarrow> (Inl e', v)
           | (Inr u, v) \<Rightarrow>
               (Inr \<lparr>ciManufacturer = manufacturer deviceInfo, ciModel = model deviceInfo,
                     ciVersion = version deviceInfo, ciSerial = serial deviceInfo,
                     shutterCount = count\<rparr>, v)))
   \<and> (sendCommand PTP_OC_CloseSession [] w = (Inl e, w1) \<longrightarrow> closeSession w = (Inl e, w1))
   \<and> (sendCommand PTP_OC_CloseSession [] w = (Inr (), w1) \<longrightarrow>
        receiveResponse w1 = (Inl e, w2) \<longrightarrow> closeSession w = (Inl e, w2))"
  apply (intro conjI impI)
  subgoal by (rule exitCanon_total)
  subgoal by (rule exitCanon_sent)
  subgoal by (rule close_outcome)
  subgoal by (rule close_counts)
  subgoal by (rule query_connect_fails)
  subgoal by (rule query_openSession_fails)
  subgoal by (rule query_getDeviceInfo_fails)
  subgoal by (rule query_vendor_fails)
  subgoal by (rule query_closeSession_fails)
  subgoal by (rule query_close_fails)
  subgoal by (rule query_succeeds)
  subgoal using closeSession_raises [of w e w1 w2] by blast
  subgoal using closeSession_raises [of w e w1 w2] by blast
  done

theorem cleanup_behaviour_witness:
  "fst (exitCanon deadCamera) = Inr ()
   \<and> map codeOf (sent (snd (exitCanon deadCamera))) = [0x9114, 0x9115]
   \<and> fst (close ((world0 [] [])\<lparr>usbReleaseOk := False, opened := True,
                                interfaceNumber := Some 0\<rparr>)) = Inr ()
   \<and> fst (close stuckCamera) = Inl TransportError
   \<and> closeCalls (snd (close stuckCamera)) = 1
   \<and> fst (getCameraInfo asciiLowerCase ((world0 [] [])\<lparr>usbPtpInterface := None\<rparr>))
       = Inl NoPtpInterface
   \<and> fst (openSession (snd (connect (world0 [XData responseBusy] []))))
       = Inl (OpenSessionFailed 0x2019)
   \<and> fst (getCameraInfo asciiLowerCase (world0 [XData responseBusy] []))
       = Inl (OpenSessionFailed 0x2019)
   \<and> fst (openSession (snd (connect stuckCamera))) = Inl (OpenSessionFailed 0x2019)
   \<and> fst (getCameraInfo asciiLowerCase stuckCamera) = Inl TransportError
   \<and> fst (getCameraInfo asciiLowerCase (world0 [XData responseOK, XData responseBusy] []))
       = Inl (GetDeviceInfoFailed 0x2019)
   \<and> fst (getCameraInfo asciiLowerCase fujiCamera) = Inl TransportError
   \<and> fst (getCameraInfo asciiLowerCase
            (world0 [XData responseOK, XData sonyInfo, XData responseOK] []))
       = Inl TransportError
   \<and> fst (getCameraInfo asciiLowerCase (sonyCamera\<lparr>usbCloseq := [False]\<rparr>))
       = Inl TransportError
   \<and> closeCalls (snd (getCameraInfo asciiLowerCase (sonyCamera\<lparr>usbCloseq := [False]\<rparr>)))
       = 2
   \<and> fst (getCameraInfo asciiLowerCase sonyCamera) =
       Inr \<lparr>ciManufacturer = ascii ''Sony'', ciModel = ascii ''M1'',
            ciVersion = ascii ''1.0'', ciSerial = ascii ''S1'', shutterCount = - 1\<rparr>
   \<and> closeCalls (snd (getCameraInfo asciiLowerCase sonyCamera)) = 2
   \<and> fst (closeSession ((world0 [] [False])\<lparr>transactionId := 1\<rparr>)) = Inl TransportError
   \<and> fst (closeSession deadCamera) = Inl TransportError"
proof -
  obtain w' where "exitCanon deadCamera = (Inr (), w')"
    using cleanup_behaviour [where w = deadCamera, THEN conjunct1] by blast
  then have r1: "fst (exitCanon deadCamera) = Inr ()" by simp
  have "map codeOf (drop (length (sent deadCamera)) (sent (snd (exitCanon deadCamera))))
       = [PTP_OC_CANON_EOS_SetRemoteMode, PTP_OC_CANON_EOS_SetEventMode]"
    using cleanup_behaviour
      [where w = deadCamera,
         THEN conjunct2, THEN conjunct1] .
  then have r1': "map codeOf (sent (snd (exitCanon deadCamera))) = [0x9114, 0x9115]"
    by (simp add: example_defs world0_def ptp_consts)
  let ?R = "(world0 [] [])\<lparr>usbReleaseOk := False, opened := True,
                                interfaceNumber := Some 0\<rparr>"
  have q2: "usbCloseq ?R = []" by (simp add: world0_def)
  have "fst (close ?R) =
       (case usbCloseq ?R of [] \<Rightarrow> Inr ()
        | ok # q \<Rightarrow> if ok then Inr () else Inl TransportError)"
    using cleanup_behaviour
      [where w = ?R,
         THEN conjunct2, THEN conjunct2, THEN conjunct1] .
  then have r2: "fst (close ?R) = Inr ()" by (simp only: q2 list.case)
  have q3: "usbCloseq stuckCamera = [False]" by (simp add: world0_def stuckCamera_def)
  have "fst (close stuckCamera) =
       (case usbCloseq stuckCamera of [] \<Rightarrow> Inr ()
        | ok # q \<Rightarrow> if ok then Inr () else Inl TransportError)"
    using cleanup_behaviour
      [where w = stuckCamera,
         THEN conjunct2, THEN conjunct2, THEN conjunct1] .
  then have r3: "fst (close stuckCamera) = Inl TransportError"
    by (simp only: q3 list.case if_False)
  have "closeCalls (snd (close stuckCamera)) = closeCalls stuckCamera + 1"
    using cleanup_behaviour
      [where w = stuckCamera,
         THEN conjunct2, THEN conjunct2, THEN conjunct2, THEN conjunct1] .
  then have r3': "closeCalls (snd (close stuckCamera)) = 1"
    by (simp add: world0_def stuckCamera_def)

  let ?P = "(world0 [] [])\<lparr>usbPtpInterface := None\<rparr>"
  let ?p1 = "snd (connect ?P)"
  have p1: "fst (connect ?P) = Inl NoPtpInterface"
    by (simp add: connect_def world0_def)
  have p2: "fst (close ?p1) = Inr ()"
    by (simp add: close_outcome connect_def world0_def)
  have "getCameraInfo asciiLowerCase ?P =
          (case close ?p1 of (Inl e', v) \<Rightarrow> (Inl e', v)
           | (Inr u, v) \<Rightarrow> (Inl NoPtpInterface, v))"
    using cleanup_behaviour
      [where w = ?P and lower = asciiLowerCase and e = NoPtpInterface and ?w1.0 = ?p1,
         THEN conjunct2, THEN conjunct2, THEN conjunct2, THEN conjunct2, THEN conjunct1]
      pairI [OF p1]
    by simp
  then have r4: "fst (getCameraInfo asciiLowerCase ?P) = Inl NoPtpInterface"
    using release_keeps_outcome [OF p2] by simp

  let ?B = "world0 [XData responseBusy] []"
  let ?b1 = "snd (connect ?B)"
  let ?b2 = "snd (openSession ?b1)"
  have b1: "fst (connect ?B) = Inr ()"
    by (simp add: connect_def world0_def)
  have b2: "fst (openSession ?b1) = Inl (OpenSessionFailed 0x2019)"
    by (simp add: run_defs connect_def example_defs ptp_consts)
  have b3: "fst (close ?b2) = Inr ()"
    by (simp add: close_outcome run_defs connect_def example_defs ptp_consts)
  have "getCameraInfo asciiLowerCase ?B =
          (case close ?b2 of (Inl e', v) \<Rightarrow> (Inl e', v)
           | (Inr u, v) \<Rightarrow> (Inl (OpenSessionFailed 0x2019), v))"
    using cleanup_behaviour
      [where w = ?B and lower = asciiLowerCase and e = "OpenSessionFailed 0x2019" and ?w1.0 = ?b1 and ?w2.0 = ?b2,
         THEN conjunct2, THEN conjunct2, THEN conjunct2, THEN conjunct2, THEN conjunct2, THEN conjunct1]
      pairI [OF b1] pairI [OF b2]
    by simp
  then have r5: "fst (getCameraInfo asciiLowerCase ?B) = Inl (OpenSessionFailed 0x2019)"
    using release_keeps_outcome [OF b3] by simp

  let ?k1 = "snd (connect stuckCamera)"
  let ?k2 = "snd (openSession ?k1)"
  have k1: "fst (connect stuckCamera) = Inr ()"
    by (simp add: connect_def world0_def example_defs)
  have k2: "fst (openSession ?k1) = Inl (OpenSessionFailed 0x2019)"
    by (simp add: run_defs connect_def example_defs ptp_consts)
  have k3: "fst (close ?k2) = Inl TransportError"
    by (simp add: close_outcome run_defs connect_def example_defs ptp_consts)
  have "getCameraInfo asciiLowerCase stuckCamera =
          (case close ?k2 of (Inl e', v) \<Rightarrow> (Inl e', v)
           | (Inr u, v) \<Rightarrow> (Inl (OpenSessionFailed 0x2019), v))"
    using cleanup_behaviour
      [where w = stuckCamera and lower = asciiLowerCase and e = "OpenSessionFailed 0x2019" and ?w1.0 = ?k1 and ?w2.0 = ?k2,
         THEN conjunct2, THEN conjunct2, THEN conjunct2, THEN conjunct2, THEN conjunct2, THEN conjunct1]
      pairI [OF k1] pairI [OF k2]
    by simp
  then have r6: "fst (getCameraInfo asciiLowerCase stuckCamera) = Inl TransportError"
    using release_error_replaces [OF k3] by simp

  let ?G = "world0 [XData responseOK, XData responseBusy] []"
  let ?g1 = "snd (connect ?G)"
  let ?g2 = "snd (openSession ?g1)"
  let ?g3 = "snd (getDeviceInfo ?g2)"
  have g1: "fst (connect ?G) = Inr ()"
    by (simp add: connect_def world0_def)
  have g2: "fst (openSession ?g1) = Inr ()"
    by (simp add: run_defs connect_def example_defs ptp_consts)
  have g3: "fst (getDeviceInfo ?g2) = Inl (GetDeviceInfoFailed 0x2019)"
    by (simp add: run_defs connect_def vendor_defs example_defs info_defs info_parse_defs ptp_consts)
  have g4: "fst (close ?g3) = Inr ()"
    by (simp add: close_outcome run_defs connect_def vendor_defs example_defs info_defs info_parse_defs ptp_consts)
  have "getCameraInfo asciiLowerCase ?G =
          (case close ?g3 of (Inl e', v) \<Rightarrow> (Inl e', v)
           | (Inr u, v) \<Rightarrow> (Inl (GetDeviceInfoFailed 0x2019), v))"
    using cleanup_behaviour
      [where w = ?G and lower = asciiLowerCase and e = "GetDeviceInfoFailed 0x2019" and ?w1.0 = ?g1 and ?w2.0 = ?g2 and ?w3.0 = ?g3,
         THEN conjunct2, THEN conjunct2, THEN conjunct2, THEN conjunct2, THEN conjunct2, THEN conjunct2, THEN conjunct1]
      pairI [OF g1] pairI [OF g2] pairI [OF g3]
    by simp
  then have r7: "fst (getCameraInfo asciiLowerCase ?G) = Inl (GetDeviceInfoFailed 0x2019)"
    using release_keeps_outcome [OF g4] by simp

  let ?fdi = "\<lparr>vendorExtensionId = 14, manufacturer = ascii ''FUJIFILM'',
         model = ascii ''M1'', version = ascii ''1.0'', serial = ascii ''S1''\<rparr>"
  let ?f1 = "snd (connect fujiCamera)"
  let ?f2 = "snd (openSession ?f1)"
  let ?f3 = "snd (getDeviceInfo ?f2)"
  let ?f4 = "snd (vendorShutterCount asciiLowerCase ?fdi ?f3)"
  have f1: "fst (connect fujiCamera) = Inr ()"
    by (simp add: connect_def info_defs world0_def)
  have f2: "fst (openSession ?f1) = Inr ()"
    by (simp add: run_defs connect_def vendor_defs example_defs info_defs info_parse_defs ptp_consts)
  have f3: "fst (getDeviceInfo ?f2) = Inr ?fdi"
    by (simp add: run_defs connect_def vendor_defs example_defs info_defs info_parse_defs ptp_consts)
  have f4: "fst (vendorShutterCount asciiLowerCase ?fdi ?f3) = Inl TransportError"
    by (simp add: run_defs connect_def vendor_defs example_defs info_defs info_parse_defs ptp_consts)
  have f5: "fst (close ?f4) = Inr ()"
    by (simp add: close_outcome run_defs connect_def vendor_defs example_defs info_defs info_parse_defs ptp_consts)
  have "getCameraInfo asciiLowerCase fujiCamera =
          (case close ?f4 of (Inl e', v) \<Rightarrow> (Inl e', v)
           | (Inr u, v) \<Rightarrow> (Inl TransportError, v))"
    using cleanup_behaviour
      [where w = fujiCamera and lower = asciiLowerCase and deviceInfo = ?fdi and e = TransportError and ?w1.0 = ?f1 and ?w2.0 = ?f2 and ?w3.0 = ?f3 and ?w4.0 = ?f4,
         THEN conjunct2, THEN conjunct2, THEN conjunct2, THEN conjunct2, THEN conjunct2, THEN conjunct2, THEN conjunct2, THEN conjunct1]
      pairI [OF f1] pairI [OF f2] pairI [OF f3] pairI [OF f4]
    by simp
  then have r8: "fst (getCameraInfo asciiLowerCase fujiCamera) = Inl TransportError"
    using release_keeps_outcome [OF f5] by simp

  let ?sdi = "\<lparr>vendorExtensionId = 6, manufacturer = ascii ''Sony'',
         model = ascii ''M1'', version = ascii ''1.0'', serial = ascii ''S1''\<rparr>"
  let ?C = "world0 [XData responseOK, XData sonyInfo, XData responseOK] []"
  let ?c1 = "snd (connect ?C)"
  let ?c2 = "snd (openSession ?c1)"
  let ?c3 = "snd (getDeviceInfo ?c2)"
  let ?c4 = "snd (vendorShutterCount asciiLowerCase ?sdi ?c3)"
  let ?c5 = "snd (closeSession ?c4)"
  have c1: "fst (connect ?C) = Inr ()"
    by (simp add: connect_def world0_def)
  have c2: "fst (openSession ?c1) = Inr ()"
    by (simp add: run_defs connect_def vendor_defs example_defs info_defs info_parse_defs ptp_consts)
  have c3: "fst (getDeviceInfo ?c2) = Inr ?sdi"
    by (simp add: run_defs connect_def vendor_defs example_defs info_defs info_parse_defs ptp_consts)
  have c4: "fst (vendorShutterCount asciiLowerCase ?sdi ?c3) = Inr (- 1)"
    by (simp add: run_defs connect_def vendor_defs example_defs info_defs info_parse_defs ptp_consts asciiLowerCase_def ascii_def)
  have c5: "fst (closeSession ?c4) = Inl TransportError"
    by (simp add: run_defs connect_def vendor_defs example_defs info_defs info_parse_defs ptp_consts asciiLowerCase_def ascii_def)
  have c6: "fst (close ?c5) = Inr ()"
    by (simp add: close_outcome run_defs connect_def vendor_defs example_defs info_defs info_parse_defs ptp_consts asciiLowerCase_def ascii_def)
  have "getCameraInfo asciiLowerCase ?C =
          (case close ?c5 of (Inl e', v) \<Rightarrow> (Inl e', v)
           | (Inr u, v) \<Rightarrow> (Inl TransportError, v))"
    using cleanup_behaviour
      [where w = ?C and lower = asciiLowerCase and deviceInfo = ?sdi and count = "- 1" and e = TransportError and ?w1.0 = ?c1 and ?w2.0 = ?c2 and ?w3.0 = ?c3 and ?w4.0 = ?c4 and ?w5.0 = ?c5,
         THEN conjunct2, THEN conjunct2, THEN conjunct2, THEN conjunct2, THEN conjunct2, THEN conjunct2, THEN conjunct2, THEN conjunct2, THEN conjunct1]
      pairI [OF c1] pairI [OF c2] pairI [OF c3] pairI [OF c4] pairI [OF c5]
    by simp
  then have r9: "fst (getCameraInfo asciiLowerCase ?C) = Inl TransportError"
    using release_keeps_outcome [OF c6] by simp

  let ?D = "sonyCamera\<lparr>usbCloseq := [False]\<rparr>"
  let ?d1 = "snd (connect ?D)"
  let ?d2 = "snd (openSession ?d1)"
  let ?d3 = "snd (getDeviceInfo ?d2)"
  let ?d4 = "snd (vendorShutterCount asciiLowerCase ?sdi ?d3)"
  let ?d5 = "snd (closeSession ?d4)"
  let ?d6 = "snd (close ?d5)"
  have d1: "fst (connect ?D) = Inr ()"
    by (simp add: connect_def info_defs world0_def)
  have d2: "fst (openSession ?d1) = Inr ()"
    by (simp add: run_defs connect_def vendor_defs example_defs info_defs info_parse_defs ptp_consts)
  have d3: "fst (getDeviceInfo ?d2) = Inr ?sdi"
    by (simp add: run_defs connect_def vendor_defs example_defs info_defs info_parse_defs ptp_consts)
  have d4: "fst (vendorShutterCount asciiLowerCase ?sdi ?d3) = Inr (- 1)"
    by (simp add: run_defs connect_def vendor_defs example_defs info_defs info_parse_defs ptp_consts asciiLowerCase_def ascii_def)
  have d5: "fst (closeSession ?d4) = Inr ()"
    by (simp add: run_defs connect_def vendor_defs example_defs info_defs info_parse_defs ptp_consts asciiLowerCase_def ascii_def)
  have d6: "fst (close ?d5) = Inl TransportError"
    by (simp add: close_outcome run_defs connect_def vendor_defs example_defs info_defs info_parse_defs ptp_consts asciiLowerCase_def ascii_def)
  have d7: "fst (close ?d6) = Inr ()"
    by (simp add: close_outcome run_defs connect_def vendor_defs example_defs info_defs info_parse_defs ptp_consts asciiLowerCase_def ascii_def
        close_def bnd_def tryCatch_def ret_def releaseInterface_def deviceClose_def)
  have "getCameraInfo asciiLowerCase ?D =
          (case close ?d6 of (Inl e', v) \<Rightarrow> (Inl e', v)
           | (Inr u, v) \<Rightarrow> (Inl TransportError, v))"
    using cleanup_behaviour
      [where w = ?D and lower = asciiLowerCase and deviceInfo = ?sdi and count = "- 1" and e = TransportError and ?w1.0 = ?d1 and ?w2.0 = ?d2 and ?w3.0 = ?d3 and ?w4.0 = ?d4 and ?w5.0 = ?d5 and ?w6.0 = ?d6,
         THEN conjunct2, THEN conjunct2, THEN conjunct2, THEN conjunct2, THEN conjunct2, THEN conjunct2, THEN conjunct2, THEN conjunct2, THEN conjunct2, THEN conjunct1]
      pairI [OF d1] pairI [OF d2] pairI [OF d3] pairI [OF d4] pairI [OF d5] pairI [OF d6]
    by simp
  then have r10: "fst (getCameraInfo asciiLowerCase ?D) = Inl TransportError"
    using release_keeps_outcome [OF d7] by simp
  have r10': "closeCalls (snd (getCameraInfo asciiLowerCase ?D)) = 2"
    by (simp add: run_defs connect_def vendor_defs example_defs info_defs info_parse_defs ptp_consts asciiLowerCase_def ascii_def
        getCameraInfo_def tryFinally_def
        close_def bnd_def tryCatch_def ret_def releaseInterface_def deviceClose_def)

  let ?s1 = "snd (connect sonyCamera)"
  let ?s2 = "snd (openSession ?s1)"
  let ?s3 = "snd (getDeviceInfo ?s2)"
  let ?s4 = "snd (vendorShutterCount asciiLowerCase ?sdi ?s3)"
  let ?s5 = "snd (closeSession ?s4)"
  let ?s6 = "snd (close ?s5)"
  have s1: "fst (connect sonyCamera) = Inr ()"
    by (simp add: connect_def info_defs world0_def)
  have s2: "fst (openSession ?s1) = Inr ()"
    by (simp add: run_defs connect_def vendor_defs example_defs info_defs info_parse_defs ptp_consts)
  have s3: "fst (getDeviceInfo ?s2) = Inr ?sdi"
    by (simp add: run_defs connect_def vendor_defs example_defs info_defs info_parse_defs ptp_consts)
  have s4: "fst (vendorShutterCount asciiLowerCase ?sdi ?s3) = Inr (- 1)"
    by (simp add: run_defs connect_def vendor_defs example_defs info_defs info_parse_defs ptp_consts asciiLowerCase_def ascii_def)
  have s5: "fst (closeSession ?s4) = Inr ()"
    by (simp add: run_defs connect_def vendor_defs example_defs info_defs info_parse_defs ptp_consts asciiLowerCase_def ascii_def)
  have s6: "fst (close ?s5) = Inr ()"
    by (simp add: close_outcome run_defs connect_def vendor_defs example_defs info_defs info_parse_defs ptp_consts asciiLowerCase_def ascii_def)
  have s7: "fst (close ?s6) = Inr ()"
    by (simp add: close_outcome run_defs connect_def vendor_defs example_defs info_defs info_parse_defs ptp_consts asciiLowerCase_def ascii_def
        close_def bnd_def tryCatch_def ret_def releaseInterface_def deviceClose_def)
  have "getCameraInfo asciiLowerCase sonyCamera =
          (case close ?s6 of
             (Inl e', v) \<Rightarrow> (Inl e', v)
           | (Inr u, v) \<Rightarrow>
               (Inr \<lparr>ciManufacturer = manufacturer ?sdi, ciModel = model ?sdi,
                     ciVersion = version ?sdi, ciSerial = serial ?sdi,
                     shutterCount = - 1\<rparr>, v))"
    using cleanup_behaviour
      [where w = sonyCamera and lower = asciiLowerCase and deviceInfo = ?sdi and count = "- 1" and ?w1.0 = ?s1 and ?w2.0 = ?s2 and ?w3.0 = ?s3 and ?w4.0 = ?s4 and ?w5.0 = ?s5 and ?w6.0 = ?s6,
         THEN conjunct2, THEN conjunct2, THEN conjunct2, THEN conjunct2, THEN conjunct2, THEN conjunct2, THEN conjunct2, THEN conjunct2, THEN conjunct2, THEN conjunct2, THEN conjunct1]
      pairI [OF s1] pairI [OF s2] pairI [OF s3] pairI [OF s4] pairI [OF s5] pairI [OF s6]
    by simp
  then have "fst (getCameraInfo asciiLowerCase sonyCamera) =
       Inr \<lparr>ciManufacturer = manufacturer ?sdi, ciModel = model ?sdi,
            ciVersion = version ?sdi, ciSerial = serial ?sdi, shutterCount = - 1\<rparr>"
    by (simp only: release_keeps_outcome [OF s7])
  then have r11: "fst (getCameraInfo asciiLowerCase sonyCamera) =
       Inr \<lparr>ciManufacturer = ascii ''Sony'', ciModel = ascii ''M1'',
            ciVersion = ascii ''1.0'', ciSerial = ascii ''S1'', shutterCount = - 1\<rparr>"
    by simp
  have r11': "closeCalls (snd (getCameraInfo asciiLowerCase sonyCamera)) = 2"
    by (simp add: run_defs connect_def vendor_defs example_defs info_defs info_parse_defs ptp_consts asciiLowerCase_def ascii_def
        getCameraInfo_def tryFinally_def
        close_def bnd_def tryCatch_def ret_def releaseInterface_def deviceClose_def)

  let ?O = "(world0 [] [False])\<lparr>transactionId := 1\<rparr>"
  have o1: "fst (sendCommand PTP_OC_CloseSession [] ?O) = Inl TransportError"
    by (simp add: run_defs world0_def)
  have "closeSession ?O = (Inl TransportError, snd (sendCommand PTP_OC_CloseSession [] ?O))"
    using cleanup_behaviour
      [where w = ?O and e = TransportError and ?w1.0 = "snd (sendCommand PTP_OC_CloseSession [] ?O)",
         THEN conjunct2, THEN conjunct2, THEN conjunct2, THEN conjunct2, THEN conjunct2, THEN conjunct2, THEN conjunct2, THEN conjunct2, THEN conjunct2, THEN conjunct2, THEN conjunct2, THEN conjunct1]
      pairI [OF o1]
    by simp
  then have r12: "fst (closeSession ?O) = Inl TransportError" by simp
  let ?w1 = "snd (sendCommand PTP_OC_CloseSession [] deadCamera)"
  have t1: "fst (sendCommand PTP_OC_CloseSession [] deadCamera) = Inr ()"
    by (simp add: run_defs example_defs)
  have t2: "fst (receiveResponse ?w1) = Inl TransportError"
    by (simp add: run_defs example_defs)
  have "closeSession deadCamera = (Inl TransportError, snd (receiveResponse ?w1))"
    using cleanup_behaviour
      [where w = deadCamera and ?w1.0 = ?w1 and e = TransportError and ?w2.0 = "snd (receiveResponse ?w1)",
         THEN conjunct2, THEN conjunct2, THEN conjunct2, THEN conjunct2, THEN conjunct2, THEN conjunct2, THEN conjunct2, THEN conjunct2, THEN conjunct2, THEN conjunct2, THEN conjunct2, THEN conjunct2]
      pairI [OF t1] pairI [OF t2]
    by simp
  then have r13: "fst (closeSession deadCamera) = Inl TransportError" by simp
  from r1 r1' r2 r3 r3' r4 b2 r5 k2 r6 r7 r8 r9 r10 r10' r11 r11' r12 r13
  show ?thesis by blast
qed

end
